theory Spec2Isabelle
  imports Main
begin

section \<open>Values, errors and effects shared by the two blocks\<close>

text \<open>
  The blocks are TypeScript classes whose methods are \<^verbatim>\<open>async\<close>: every \<^verbatim>\<open>await\<close> is a
  call to a collaborator that either returns or throws. A method is modelled as a function
  from the world before the call to a result (\<open>Inl\<close> the error thrown, \<open>Inr\<close> the value
  returned) and the world after it, so that what a failing call has already done stays
  visible. Collaborators that are not part of the two source files (repository, ledger,
  wallet, credential helper, the block reference \<^verbatim>\<open>ref\<close>) are fields of an environment
  record; each call that has an outward effect is also written to a trace. The decorators
  of the classes and methods (\<^verbatim>\<open>EventBlock\<close>, \<^verbatim>\<open>BasicBlock\<close>, \<^verbatim>\<open>StateField\<close>,
  \<^verbatim>\<open>ActionCallback\<close>, \<^verbatim>\<open>CatchErrors\<close>) are defined elsewhere: a method is modelled by
  its body.
\<close>

type_synonym json = string

text \<open>A JavaScript number: not-a-number, the two infinities, or a finite value. The blocks
  only test a number for being finite and hand it on, so finite values are integers here.\<close>

datatype number = NaN | Infinity | NegInfinity | Finite int

datatype jsval = JUndefined | JNull | JBool bool | JNum number | JStr string | JObj json

text \<open>JavaScript truthiness, as \<^verbatim>\<open>!x\<close> and \<^verbatim>\<open>x ? a : b\<close> and \<^verbatim>\<open>x || y\<close> test it.\<close>

fun truthy :: "jsval \<Rightarrow> bool" where
  "truthy JUndefined = False"
| "truthy JNull = False"
| "truthy (JBool b) = b"
| "truthy (JNum n) = (n \<noteq> NaN \<and> n \<noteq> Finite 0)"
| "truthy (JStr s) = (s \<noteq> [])"
| "truthy (JObj j) = True"

text \<open>A value of type \<^verbatim>\<open>string | undefined\<close> is a \<open>string option\<close>; it is truthy when it
  is a non-empty string.\<close>

fun truthy_str :: "string option \<Rightarrow> bool" where
  "truthy_str None = False"
| "truthy_str (Some s) = (s \<noteq> [])"

text \<open>What a template literal prints for a \<^verbatim>\<open>string | undefined\<close>, a number and any
  value.\<close>

fun show_str :: "string option \<Rightarrow> string" where
  "show_str None = ''undefined''"
| "show_str (Some s) = s"

fun show_nat :: "nat \<Rightarrow> string" where
  "show_nat n = (if n < 10 then [char_of (48 + n)] else show_nat (n div 10) @ [char_of (48 + n mod 10)])"

declare show_nat.simps [simp del]

fun show_number :: "number \<Rightarrow> string" where
  "show_number NaN = ''NaN''"
| "show_number Infinity = ''Infinity''"
| "show_number NegInfinity = ''-Infinity''"
| "show_number (Finite i) = (if i < 0 then ''-'' @ show_nat (nat (- i)) else show_nat (nat i))"

fun show_jsval :: "jsval \<Rightarrow> string" where
  "show_jsval JUndefined = ''undefined''"
| "show_jsval JNull = ''null''"
| "show_jsval (JBool b) = (if b then ''true'' else ''false'')"
| "show_jsval (JNum n) = show_number n"
| "show_jsval (JStr s) = s"
| "show_jsval (JObj j) = ''[object Object]''"

text \<open>\<^verbatim>\<open>xs[0]\<close>: the first element, \<^verbatim>\<open>undefined\<close> for an empty array.\<close>

fun first :: "'a list \<Rightarrow> 'a option" where
  "first [] = None"
| "first (x # xs) = Some x"

text \<open>
  The errors of the source. \<open>BlockActionError m\<close> is \<^verbatim>\<open>new BlockActionError(m, ref.blockType,
  ref.uuid)\<close> with a message text, \<open>BlockActionError_of e\<close> is the same constructor applied to
  a caught error \<open>e\<close>; block type and uuid are constants of the block and are left out.
  \<open>TypeError\<close> is the runtime's error for a property access on \<^verbatim>\<open>undefined\<close> or a property
  assignment on a primitive in strict mode; \<open>Thrown\<close> is an error raised by a collaborator.
\<close>

datatype error =
    Thrown string
  | TypeError string
  | BlockActionError string
  | BlockActionError_of error

text \<open>\<^verbatim>\<open>error.message\<close>. The class \<^verbatim>\<open>BlockActionError\<close> is not among the source files; the
  message of a wrapped error is taken to be the message of the error it wraps.\<close>

fun message :: "error \<Rightarrow> string" where
  "message (Thrown m) = m"
| "message (TypeError m) = m"
| "message (BlockActionError m) = m"
| "message (BlockActionError_of e) = message e"

record user =
  did :: "string option"
  hederaAccountId :: "string option"
  walletToken :: string

datatype event_type = RunEvent | RefreshEvent

text \<open>The state blob of one actor: an object whose only property this class reads or writes
  is \<^verbatim>\<open>active\<close> (\<open>None\<close> when the property is \<^verbatim>\<open>undefined\<close>). The state object itself is
  created as \<^verbatim>\<open>{ active: true }\<close>, so under the key \<^verbatim>\<open>active\<close> it holds a boolean, not a
  blob: \<open>Prim\<close>.\<close>

datatype entry = Prim bool | Blob "bool option"

record message_result =
  getId :: string
  getTopicId :: "string option"

record did_object =
  getDid :: string
  getPrivateKeyString :: string
  getDocument :: json

record topic =
  topic_id :: "string option"
  topic_topicId :: string

record did_record =
  did_did :: string
  did_document :: json
  did_status :: string
  did_messageId :: string
  did_topicId :: "string option"

text \<open>\<^verbatim>\<open>PolicyUtils.createVCRecord(policyId, tag, type, vc, options, ref)\<close> is not among the
  source files: the record it builds is represented by the arguments it is given.\<close>

record vc_record =
  rec_policyId :: string
  rec_tag :: string
  rec_type :: "string option"
  rec_document :: json
  rec_owner :: "string option"
  rec_schema :: jsval
  rec_option_type :: jsval
  rec_accounts :: "json option"
  rec_messageId :: "string option"
  rec_topicId :: "string option"
  rec_relationships :: "string list option"
  rec_ref :: "json option"

record vp_record =
  vp_hash :: string
  vp_document :: json
  vp_owner :: "string option"
  vp_type :: string
  vp_policyId :: string
  vp_tag :: string
  vp_messageId :: string
  vp_topicId :: "string option"

datatype ledger_message =
    DIDMessage did_object
  | VCMessage json "string list"
  | VPMessage json "string list"

datatype payload = Null | StateData vc_record | EventData json

datatype effect =
    RefLog string
  | RefError string
  | UpdateBlock entry user
  | TriggerEvents event_type user payload
  | SendMessage "string option" string topic ledger_message
  | SaveDidDocument did_record
  | WalletSetKey string string string
  | UpdateVCRecord vc_record
  | SaveVP vp_record
  | MintToken string number string "string option" string

text \<open>The world every method runs in: the trace of outward calls made so far, and the
  number of random draws made so far (\<^verbatim>\<open>GenerateUUIDv4\<close>, \<^verbatim>\<open>DIDDocument.create\<close>).\<close>

record world =
  trace :: "effect list"
  draws :: nat

type_synonym ('a, 'w) action = "'w \<Rightarrow> (error + 'a) \<times> 'w"

definition ret :: "'a \<Rightarrow> ('a, 'w) action" where
  "ret x = (\<lambda>w. (Inr x, w))"

definition throw :: "error \<Rightarrow> ('a, 'w) action" where
  "throw e = (\<lambda>w. (Inl e, w))"

definition bind :: "('a, 'w) action \<Rightarrow> ('a \<Rightarrow> ('b, 'w) action) \<Rightarrow> ('b, 'w) action" where
  "bind m f = (\<lambda>w. case m w of (Inl e, w') \<Rightarrow> (Inl e, w') | (Inr x, w') \<Rightarrow> f x w')"

definition try_catch :: "('a, 'w) action \<Rightarrow> (error \<Rightarrow> ('a, 'w) action) \<Rightarrow> ('a, 'w) action" where
  "try_catch m h = (\<lambda>w. case m w of (Inl e, w') \<Rightarrow> h e w' | (Inr x, w') \<Rightarrow> (Inr x, w'))"

text \<open>A read from a collaborator: it returns or throws and leaves no trace.\<close>

definition await :: "error + 'a \<Rightarrow> ('a, 'w) action" where
  "await r = (\<lambda>w. (r, w))"

text \<open>An outward call: the call is written to the trace, then it returns or throws.\<close>

definition call :: "effect \<Rightarrow> error + 'a \<Rightarrow> ('a, 'w world_scheme) action" where
  "call eff r = (\<lambda>w. (r, w\<lparr>trace := trace w @ [eff]\<rparr>))"

text \<open>\<^verbatim>\<open>ref.log\<close> and \<^verbatim>\<open>ref.error\<close> write a line and return.\<close>

definition emit :: "effect \<Rightarrow> (unit, 'w world_scheme) action" where
  "emit eff = (\<lambda>w. (Inr (), w\<lparr>trace := trace w @ [eff]\<rparr>))"

text \<open>A random draw: the \<open>n\<close>-th draw of the generator \<open>g\<close>.\<close>

definition draw :: "(nat \<Rightarrow> 'a) \<Rightarrow> ('a, 'w world_scheme) action" where
  "draw g = (\<lambda>w. (Inr (g (draws w)), w\<lparr>draws := Suc (draws w)\<rparr>))"

text \<open>An action preserves a property of the world when the property holds after every
  run that starts where it holds, whether the run returns or throws.\<close>

definition preserves :: "('w \<Rightarrow> bool) \<Rightarrow> ('a, 'w) action \<Rightarrow> bool" where
  "preserves P m = (\<forall>w. P w \<longrightarrow> P (snd (m w)))"

text \<open>An effect is quiet when it is not an output event other than the Refresh event with
  a \<^verbatim>\<open>null\<close> payload that \<^verbatim>\<open>changeActive\<close> triggers: a quiet trace holds no Run event and no
  Refresh event that carries a document.\<close>

fun quiet :: "effect \<Rightarrow> bool" where
  "quiet (TriggerEvents t u p) = (t = RefreshEvent \<and> p = Null)"
| "quiet eff = True"

section \<open>The Request block\<close>

record request_options =
  opt_schema :: jsval
  opt_presetSchema :: jsval
  opt_idType :: "string option"
  opt_presetFields :: jsval
  opt_uiMetaData :: jsval
  opt_hideFields :: jsval

text \<open>A child of the block: its class name and what its \<^verbatim>\<open>run\<close> returns for a user and a
  document state.\<close>

record child_block =
  blockClassName :: string
  run :: "user \<Rightarrow> vc_record \<Rightarrow> error + bool"

record credential_subject =
  subject_fields :: json
  subject_id :: "string option"
  subject_ref :: "string option"
  subject_policyId :: "string option"

record request_data =
  document :: "credential_subject option"
  ref :: jsval

record request_env =
  ref_uuid :: string
  ref_blockType :: string
  ref_policyId :: string
  ref_tag :: string
  ref_topicId :: string
  ref_options :: request_options
  ref_children :: "child_block list"
  updateBlock :: "entry \<Rightarrow> user \<Rightarrow> error + unit"
  triggerEvents :: "event_type \<Rightarrow> user \<Rightarrow> payload \<Rightarrow> error + unit"
  getSources :: "user \<Rightarrow> error + json list"
  findOneSchema :: "jsval \<Rightarrow> string \<Rightarrow> error + json option"
  wallet_getKey :: "string \<Rightarrow> string option \<Rightarrow> error + string"
  wallet_setKey :: "string \<Rightarrow> string \<Rightarrow> string \<Rightarrow> error + unit"
  utils_getRelationships :: "string \<Rightarrow> jsval \<Rightarrow> error + json option"
  utils_getSubjectId :: "json \<Rightarrow> string"
  utils_getHederaAccounts :: "json \<Rightarrow> string option \<Rightarrow> json \<Rightarrow> json"
  utils_getTopic :: "error + topic"
  verifySubject :: "credential_subject \<Rightarrow> error + bool \<times> json"
  createVC :: "string option \<Rightarrow> string \<Rightarrow> credential_subject \<Rightarrow> error + json"
  GenerateUUIDv4 :: "nat \<Rightarrow> string"
  DIDDocument_create :: "string \<Rightarrow> nat \<Rightarrow> did_object"
  sendMessage :: "string option \<Rightarrow> string \<Rightarrow> topic \<Rightarrow> ledger_message \<Rightarrow> error + message_result"
  save_did :: "did_record \<Rightarrow> error + unit"

text \<open>The block instance: the \<^verbatim>\<open>state\<close> object (a dictionary from property names to
  entries) and the memoised \<^verbatim>\<open>schema\<close> field.\<close>

record request_world = world +
  state :: "string \<rightharpoonup> entry"
  schema :: "json option"

text \<open>The property name \<^verbatim>\<open>this.state[user.did]\<close> uses: an absent did is the name
  \<^verbatim>\<open>undefined\<close>.\<close>

definition state_key :: "user \<Rightarrow> string" where
  "state_key u = show_str (did u)"

text \<open>The \<^verbatim>\<open>state\<close> object is a plain JavaScript object used as a dictionary, and two
  property names are not ordinary keys of it.
  \<^item> \<^verbatim>\<open>this.state.hasOwnProperty(key)\<close> calls whatever the object has under the name
    \<^verbatim>\<open>hasOwnProperty\<close>: the method it inherits, unless an entry has been stored under that
    name; an entry is not a function, and calling it throws. When the method is called, it
    answers whether the object has an entry of its own under the key.
  \<^item> \<^verbatim>\<open>this.state[key] = blockState\<close> with the key \<^verbatim>\<open>__proto__\<close> and an object on the right
    sets the prototype of the state object and stores no entry. The prototype is never read
    back: the class reads \<^verbatim>\<open>this.state[key]\<close> only for a key the object has an entry of its
    own for, and the new prototype has no property \<^verbatim>\<open>hasOwnProperty\<close> of its own.\<close>

definition hasOwnProperty :: "(string \<rightharpoonup> entry) \<Rightarrow> string \<Rightarrow> error + bool" where
  "hasOwnProperty st key =
     (case st ''hasOwnProperty'' of
        Some e \<Rightarrow> Inl (TypeError ''this.state.hasOwnProperty is not a function'')
      | None \<Rightarrow> Inr (st key \<noteq> None))"

definition assign_property :: "(string \<rightharpoonup> entry) \<Rightarrow> string \<Rightarrow> entry \<Rightarrow> (string \<rightharpoonup> entry)" where
  "assign_property st key blockState = (if key = ''__proto__'' then st else st(key \<mapsto> blockState))"

text \<open>\<^verbatim>\<open>changeActive\<close> (lines 114-127). When \<^verbatim>\<open>hasOwnProperty\<close> answers false, a new object is
  assigned under the key; when it answers true, the entry under the key is taken (it is
  there: the case \<open>None\<close> below is the answer false). Then \<^verbatim>\<open>active\<close> is assigned on that
  object, which throws in strict mode when it is a boolean, and \<^verbatim>\<open>ref.updateBlock\<close> and
  \<^verbatim>\<open>ref.triggerEvents\<close> are called.\<close>

definition changeActive :: "request_env \<Rightarrow> user \<Rightarrow> bool \<Rightarrow> (unit, request_world) action" where
  "changeActive env u active = (\<lambda>w.
     case hasOwnProperty (state w) (state_key u) of
       Inl e \<Rightarrow> (Inl e, w)
     | Inr own \<Rightarrow>
         (case state w (state_key u) of
            Some (Prim b) \<Rightarrow> (Inl (TypeError ''Cannot create property active on boolean''), w)
          | Some (Blob x) \<Rightarrow>
              bind (call (UpdateBlock (Blob (Some active)) u) (updateBlock env (Blob (Some active)) u))
                (\<lambda>_. call (TriggerEvents RefreshEvent u Null) (triggerEvents env RefreshEvent u Null))
                (w\<lparr>state := (state w)(state_key u \<mapsto> Blob (Some active))\<rparr>)
          | None \<Rightarrow>
              bind (call (UpdateBlock (Blob (Some active)) u) (updateBlock env (Blob (Some active)) u))
                (\<lambda>_. call (TriggerEvents RefreshEvent u Null) (triggerEvents env RefreshEvent u Null))
                (w\<lparr>state := assign_property (state w) (state_key u) (Blob (Some active))\<rparr>)))"

text \<open>\<^verbatim>\<open>getActive\<close> (lines 133-145), with the same two branches; \<^verbatim>\<open>active\<close> is assigned
  only when it is \<^verbatim>\<open>undefined\<close>.\<close>

definition getActive :: "user \<Rightarrow> (bool, request_world) action" where
  "getActive u = (\<lambda>w.
     case hasOwnProperty (state w) (state_key u) of
       Inl e \<Rightarrow> (Inl e, w)
     | Inr own \<Rightarrow>
         (case state w (state_key u) of
            None \<Rightarrow> (Inr True, w\<lparr>state := assign_property (state w) (state_key u) (Blob (Some True))\<rparr>)
          | Some (Blob None) \<Rightarrow> (Inr True, w\<lparr>state := (state w)(state_key u \<mapsto> Blob (Some True))\<rparr>)
          | Some (Blob (Some b)) \<Rightarrow> (Inr b, w)
          | Some (Prim b) \<Rightarrow> (Inl (TypeError ''Cannot create property active on boolean''), w)))"

text \<open>\<^verbatim>\<open>getSchema\<close> (lines 150-163): the schema is looked up once and memoised. The wrapper
  \<^verbatim>\<open>new Schema(schema)\<close> is not among the source files and is left out.\<close>

definition getSchema :: "request_env \<Rightarrow> (json, request_world) action" where
  "getSchema env = (\<lambda>w.
     case schema w of
       Some s \<Rightarrow> (Inr s, w)
     | None \<Rightarrow>
         (case findOneSchema env (opt_schema (ref_options env)) (ref_topicId env) of
            Inl e \<Rightarrow> (Inl e, w)
          | Inr None \<Rightarrow> (Inl (BlockActionError ''Waiting for schema''), w)
          | Inr (Some s) \<Rightarrow> (Inr s, w\<lparr>schema := Some s\<rparr>)))"

record block_data =
  bd_id :: string
  bd_blockType :: string
  bd_schema :: json
  bd_presetSchema :: jsval
  bd_presetFields :: jsval
  bd_uiMetaData :: jsval
  bd_hideFields :: jsval
  bd_active :: bool
  bd_data :: "json option"

text \<open>\<^verbatim>\<open>getData\<close> (lines 169-187).\<close>

definition getData :: "request_env \<Rightarrow> user \<Rightarrow> (block_data, request_world) action" where
  "getData env u =
     bind (getSchema env) (\<lambda>sch.
     bind (await (getSources env u)) (\<lambda>sources.
     bind (getActive u) (\<lambda>active.
     ret \<lparr> bd_id = ref_uuid env,
           bd_blockType = ref_blockType env,
           bd_schema = sch,
           bd_presetSchema = opt_presetSchema (ref_options env),
           bd_presetFields = opt_presetFields (ref_options env),
           bd_uiMetaData = (if truthy (opt_uiMetaData (ref_options env))
                            then opt_uiMetaData (ref_options env) else JObj ''{}''),
           bd_hideFields = (if truthy (opt_hideFields (ref_options env))
                            then opt_hideFields (ref_options env) else JObj ''[]''),
           bd_active = active,
           bd_data = first sources \<rparr>)))"

text \<open>\<^verbatim>\<open>getRelationships\<close> (lines 194-202).\<close>

definition getRelationships :: "request_env \<Rightarrow> string \<Rightarrow> jsval \<Rightarrow> (json option, request_world) action" where
  "getRelationships env policyId refId =
     try_catch (await (utils_getRelationships env policyId refId))
       (\<lambda>e. bind (emit (RefError (message e)))
               (\<lambda>_. throw (BlockActionError ''Invalid relationships'')))"

text \<open>\<^verbatim>\<open>generateId\<close> (lines 300-343).\<close>

definition generateId ::
  "request_env \<Rightarrow> string option \<Rightarrow> user \<Rightarrow> string option \<Rightarrow> string \<Rightarrow> (string option, request_world) action"
where
  "generateId env idType u userHederaAccount userHederaKey =
     try_catch
       (if idType = Some ''UUID'' then
          bind (draw (GenerateUUIDv4 env)) (\<lambda>uuid. ret (Some uuid))
        else if idType = Some ''DID'' then
          bind (await (utils_getTopic env)) (\<lambda>tp.
          bind (draw (DIDDocument_create env (topic_topicId tp))) (\<lambda>didObject.
          bind (call (SendMessage userHederaAccount userHederaKey tp (DIDMessage didObject))
                  (sendMessage env userHederaAccount userHederaKey tp (DIDMessage didObject)))
            (\<lambda>messageResult.
          bind (call (SaveDidDocument
                        \<lparr> did_did = getDid didObject,
                          did_document = getDocument didObject,
                          did_status = ''CREATE'',
                          did_messageId = getId messageResult,
                          did_topicId = getTopicId messageResult \<rparr>)
                  (save_did env
                        \<lparr> did_did = getDid didObject,
                          did_document = getDocument didObject,
                          did_status = ''CREATE'',
                          did_messageId = getId messageResult,
                          did_topicId = getTopicId messageResult \<rparr>))
            (\<lambda>_.
          bind (call (WalletSetKey (walletToken u) (getDid didObject) (getPrivateKeyString didObject))
                  (wallet_setKey env (walletToken u) (getDid didObject) (getPrivateKeyString didObject)))
            (\<lambda>_. ret (Some (getDid didObject)))))))
        else if idType = Some ''OWNER'' then ret (did u)
        else ret None)
       (\<lambda>e. bind (emit (RefError (''generateId: '' @ show_str idType @ '' : '' @ message e)))
               (\<lambda>_. throw (BlockActionError_of e)))"

text \<open>\<^verbatim>\<open>getValidators\<close> (lines 68-77) and \<^verbatim>\<open>validateDocuments\<close> (lines 84-104).\<close>

definition getValidators :: "request_env \<Rightarrow> child_block list" where
  "getValidators env = filter (\<lambda>child. blockClassName child = ''ValidatorBlock'') (ref_children env)"

fun run_validators :: "child_block list \<Rightarrow> user \<Rightarrow> vc_record \<Rightarrow> (bool, request_world) action" where
  "run_validators [] u item = ret True"
| "run_validators (validator # validators) u item =
     bind (await (run validator u item))
       (\<lambda>valid. if \<not> valid then ret False else run_validators validators u item)"

definition validateDocuments :: "request_env \<Rightarrow> user \<Rightarrow> vc_record \<Rightarrow> (bool, request_world) action" where
  "validateDocuments env u item = run_validators (getValidators env) u item"

text \<open>\<^verbatim>\<open>setData\<close> (lines 212-291). \<open>setData_build\<close> is the first part of the \<^verbatim>\<open>try\<close>
  block (lines 226-274), which ends with the record \<^verbatim>\<open>item\<close>; \<open>setData_try\<close> is the whole
  \<^verbatim>\<open>try\<close> block (lines 226-283), \<open>setData_catch\<close> the \<^verbatim>\<open>catch\<close> block (lines 285-287).
  The three assignments to \<^verbatim>\<open>credentialSubject\<close> throw when \<^verbatim>\<open>_data.document\<close> is
  \<^verbatim>\<open>undefined\<close>; the last one is unconditional.\<close>

definition setData_build :: "request_env \<Rightarrow> user \<Rightarrow> request_data \<Rightarrow> (vc_record, request_world) action" where
  "setData_build env u data =
     bind (changeActive env u False) (\<lambda>_.
     bind (await (wallet_getKey env (walletToken u) (did u))) (\<lambda>userHederaKey.
     bind (getRelationships env (ref_policyId env) (ref data)) (\<lambda>documentRef.
     bind (getSchema env) (\<lambda>sch.
     bind (generateId env (opt_idType (ref_options env)) u (hederaAccountId u) userHederaKey) (\<lambda>gid.
     (case document data of
        None \<Rightarrow> throw (TypeError ''Cannot set properties of undefined'')
      | Some doc \<Rightarrow>
          (let credentialSubject = doc
                 \<lparr> subject_id := (if truthy_str gid then gid else subject_id doc),
                   subject_ref := (case documentRef of
                                     None \<Rightarrow> subject_ref doc
                                   | Some r \<Rightarrow> Some (utils_getSubjectId env r)),
                   subject_policyId := Some (ref_policyId env) \<rparr>
           in
     bind (await (verifySubject env credentialSubject)) (\<lambda>res.
     if \<not> fst res then throw (BlockActionError (snd res)) else
     bind (await (createVC env (did u) userHederaKey credentialSubject)) (\<lambda>vc.
     ret \<lparr> rec_policyId = ref_policyId env,
           rec_tag = ref_tag env,
           rec_type = None,
           rec_document = vc,
           rec_owner = did u,
           rec_schema = opt_schema (ref_options env),
           rec_option_type = opt_schema (ref_options env),
           rec_accounts = Some (utils_getHederaAccounts env vc (hederaAccountId u) sch),
           rec_messageId = None,
           rec_topicId = None,
           rec_relationships = None,
           rec_ref = documentRef \<rparr>)))))))))"

definition setData_try :: "request_env \<Rightarrow> user \<Rightarrow> request_data \<Rightarrow> (unit, request_world) action" where
  "setData_try env u data =
     bind (setData_build env u data) (\<lambda>item.
     bind (validateDocuments env u item) (\<lambda>valid.
     if \<not> valid then throw (BlockActionError ''Invalid document'') else
     bind (changeActive env u True) (\<lambda>_.
     bind (call (TriggerEvents RunEvent u (StateData item))
             (triggerEvents env RunEvent u (StateData item))) (\<lambda>_.
     call (TriggerEvents RefreshEvent u (StateData item))
       (triggerEvents env RefreshEvent u (StateData item))))))"

definition setData_catch :: "request_env \<Rightarrow> user \<Rightarrow> error \<Rightarrow> (unit, request_world) action" where
  "setData_catch env u e =
     bind (emit (RefError (''setData: '' @ message e))) (\<lambda>_.
     bind (changeActive env u True) (\<lambda>_.
     throw (BlockActionError_of e)))"

definition setData :: "request_env \<Rightarrow> user \<Rightarrow> request_data \<Rightarrow> (unit, request_world) action" where
  "setData env u data =
     bind (emit (RefLog ''setData'')) (\<lambda>_.
     if \<not> truthy_str (did u) then throw (BlockActionError ''User have no any did'') else
     bind (getActive u) (\<lambda>active.
     if \<not> active then throw (BlockActionError ''Block not available'') else
     try_catch (setData_try env u data) (setData_catch env u)))"

text \<open>\<^verbatim>\<open>validate\<close> (lines 349-382). The results container is the list of (block uuid,
  message) pairs added so far; \<open>validate_try\<close> is the body of the \<^verbatim>\<open>try\<close> block, which
  adds its errors to the container or throws when a repository lookup throws.\<close>

type_synonym results_container = "(string \<times> string) list"

definition addBlockError :: "string \<Rightarrow> string \<Rightarrow> results_container \<Rightarrow> results_container" where
  "addBlockError uuid msg rc = rc @ [(uuid, msg)]"

definition is_string :: "jsval \<Rightarrow> bool" where
  "is_string v = (case v of JStr s \<Rightarrow> True | _ \<Rightarrow> False)"

definition validate_try :: "request_env \<Rightarrow> results_container \<Rightarrow> error + results_container" where
  \<open>validate_try env rc =
     (if \<not> truthy (opt_schema (ref_options env)) then
        Inr (addBlockError (ref_uuid env) ''Option "schema" does not set'' rc)
      else if \<not> is_string (opt_schema (ref_options env)) then
        Inr (addBlockError (ref_uuid env) ''Option "schema" must be a string'' rc)
      else
        (case findOneSchema env (opt_schema (ref_options env)) (ref_topicId env) of
           Inl e \<Rightarrow> Inl e
         | Inr None \<Rightarrow>
             Inr (addBlockError (ref_uuid env)
                    (''Schema with id "'' @ show_jsval (opt_schema (ref_options env)) @ ''" does not exist'') rc)
         | Inr (Some sch) \<Rightarrow>
             (if truthy (opt_presetSchema (ref_options env)) then
                (case findOneSchema env (opt_presetSchema (ref_options env)) (ref_topicId env) of
                   Inl e \<Rightarrow> Inl e
                 | Inr None \<Rightarrow>
                     Inr (addBlockError (ref_uuid env)
                            (''Schema with id "'' @ show_jsval (opt_presetSchema (ref_options env))
                               @ ''" does not exist'') rc)
                 | Inr (Some preset) \<Rightarrow> Inr rc)
              else Inr rc)))\<close>

definition validate :: "request_env \<Rightarrow> results_container \<Rightarrow> results_container" where
  "validate env rc =
     (case validate_try env rc of
        Inl e \<Rightarrow> addBlockError (ref_uuid env) (''Unhandled exception '' @ message e) rc
      | Inr rc' \<Rightarrow> rc')"

text \<open>A property of the Request block's world is stable, for a set \<open>Q\<close> of effects and a
  state key \<open>k\<close>, when it survives a trace entry in \<open>Q\<close>, a random draw, the memoisation
  of the schema and the assignment of a blob under \<open>k\<close>.\<close>

definition stable :: "(effect \<Rightarrow> bool) \<Rightarrow> string \<Rightarrow> (request_world \<Rightarrow> bool) \<Rightarrow> bool" where
  "stable Q k P =
     ((\<forall>w eff. P w \<longrightarrow> Q eff \<longrightarrow> P (w\<lparr>trace := trace w @ [eff]\<rparr>))
    \<and> (\<forall>w n. P w \<longrightarrow> P (w\<lparr>draws := n\<rparr>))
    \<and> (\<forall>w s. P w \<longrightarrow> P (w\<lparr>schema := s\<rparr>))
    \<and> (\<forall>w b. P w \<longrightarrow> P (w\<lparr>state := (state w)(k \<mapsto> Blob b)\<rparr>)))"

section \<open>The Mint block\<close>

text \<open>The enumerations \<^verbatim>\<open>DocumentSignature\<close> and \<^verbatim>\<open>DataTypes\<close> are declared outside the two
  source files; the block only compares a signature with \<^verbatim>\<open>INVALID\<close> and only passes
  \<^verbatim>\<open>DataTypes.MINT\<close> on.\<close>

datatype DocumentSignature = NEW | VERIFIED | INVALID

definition DataTypes_MINT :: string where
  "DataTypes_MINT = ''MINT''"

record token =
  tok_tokenId :: string
  tok_json :: json

text \<open>An input document of the Run event. \<^verbatim>\<open>doc.accounts\<close> is an object from field names to
  account ids, or absent.\<close>

record mint_doc =
  doc_owner :: "string option"
  doc_signature :: DocumentSignature
  doc_document :: json
  doc_messageId :: "string option"
  doc_topicId :: "string option"
  doc_accounts :: "(string \<times> string) list option"

text \<open>The event: \<open>ev_data\<close> is \<^verbatim>\<open>event.data\<close> as it is passed on to the output events,
  \<open>ev_docs\<close> is the array \<^verbatim>\<open>PolicyUtils.getArray(event.data.data)\<close>.\<close>

record policy_event =
  ev_data :: json
  ev_docs :: "mint_doc list"

record root_account =
  root_did :: string
  root_hederaAccountId :: "string option"
  root_hederaAccountKey :: string

record mint_subject =
  ms_context :: json
  ms_date :: string
  ms_tokenId :: string
  ms_amount :: string

record mint_options =
  mopt_tokenId :: jsval
  mopt_rule :: jsval
  mopt_accountId :: "string option"

record mint_env =
  mref_policyId :: string
  mref_tag :: string
  mref_topicId :: string
  mref_policyOwner :: string
  mref_options :: mint_options
  mref_triggerEvents :: "event_type \<Rightarrow> user \<Rightarrow> payload \<Rightarrow> error + unit"
  findOneToken :: "jsval \<Rightarrow> error + token option"
  getUserById :: "string option \<Rightarrow> error + user option"
  getHederaAccount :: "string \<Rightarrow> error + root_account"
  fromJsonTree :: "json \<Rightarrow> error + json"
  mint_GenerateUUIDv4 :: "nat \<Rightarrow> string"
  utils_aggregate :: "jsval \<Rightarrow> json list \<Rightarrow> error + number"
  utils_tokenAmount :: "token \<Rightarrow> number \<Rightarrow> number \<times> string"
  utils_getSchema :: "string \<Rightarrow> error + json"
  getContext :: "json \<Rightarrow> json"
  now_ISO :: string
  mint_createVC :: "string \<Rightarrow> string \<Rightarrow> mint_subject \<Rightarrow> error + json"
  helper_createVP :: "string \<Rightarrow> string \<Rightarrow> json list \<Rightarrow> string \<Rightarrow> error + json"
  utils_getTopicById :: "string \<Rightarrow> error + topic"
  utils_getTopic_root :: "root_account \<Rightarrow> user \<Rightarrow> error + topic"
  mint_sendMessage :: "string option \<Rightarrow> string \<Rightarrow> topic \<Rightarrow> ledger_message \<Rightarrow> error + message_result"
  utils_updateVCRecord :: "vc_record \<Rightarrow> error + unit"
  utils_saveVP :: "vp_record \<Rightarrow> error + unit"
  utils_mint :: "token \<Rightarrow> number \<Rightarrow> root_account \<Rightarrow> string option \<Rightarrow> string \<Rightarrow> error + unit"
  getSubjectType :: "json \<Rightarrow> string"
  toCredentialHash :: "json \<Rightarrow> string"
  toJsonTree :: "json \<Rightarrow> json"

fun isNaN :: "number \<Rightarrow> bool" where
  "isNaN NaN = True"
| "isNaN n = False"

fun isFinite :: "number \<Rightarrow> bool" where
  "isFinite (Finite i) = True"
| "isFinite n = False"

text \<open>\<^verbatim>\<open>createMintVC\<close> (lines 59-75) and \<^verbatim>\<open>createVP\<close> (lines 84-93).\<close>

definition createMintVC :: "mint_env \<Rightarrow> root_account \<Rightarrow> token \<Rightarrow> string \<Rightarrow> (json, world) action" where
  "createMintVC env root tok amount =
     bind (await (utils_getSchema env (mref_topicId env))) (\<lambda>policySchema.
     await (mint_createVC env (root_did root) (root_hederaAccountKey root)
              \<lparr> ms_context = getContext env policySchema,
                ms_date = now_ISO env,
                ms_tokenId = tok_tokenId tok,
                ms_amount = amount \<rparr>))"

definition createVP :: "mint_env \<Rightarrow> root_account \<Rightarrow> string \<Rightarrow> json list \<Rightarrow> (json, world) action" where
  "createVP env root uuid vcs =
     await (helper_createVP env (root_did root) (root_hederaAccountKey root) vcs uuid)"

text \<open>\<^verbatim>\<open>mintProcessing\<close> (lines 105-184). \<^verbatim>\<open>relationships.push\<close> (line 161) extends the
  array after the VC message has been sent and its record stored; both calls are traced
  with the array as it was when they were made.\<close>

definition mintProcessing ::
  "mint_env \<Rightarrow> token \<Rightarrow> json list \<Rightarrow> string list \<Rightarrow> string option \<Rightarrow> root_account \<Rightarrow> user
     \<Rightarrow> string option \<Rightarrow> (json, world) action"
where
  "mintProcessing env tok documents relationships topicId root u targetAccountId =
     bind (draw (mint_GenerateUUIDv4 env)) (\<lambda>uuid.
     bind (await (utils_aggregate env (mopt_rule (mref_options env)) documents)) (\<lambda>amount.
     if isNaN amount \<or> \<not> isFinite amount then
       throw (BlockActionError (''Invalid token value: '' @ show_number amount))
     else
     (case utils_tokenAmount env tok amount of (tokenValue, tokenAmount) \<Rightarrow>
     bind (createMintVC env root tok tokenAmount) (\<lambda>mintVC.
     bind (createVP env root uuid (documents @ [mintVC])) (\<lambda>vp.
     bind (emit (RefLog (''Topic Id: '' @ show_str topicId))) (\<lambda>_.
     bind (if truthy_str topicId
           then await (utils_getTopicById env (show_str topicId))
           else await (utils_getTopic_root env root u)) (\<lambda>tp.
     bind (emit (RefLog (''Topic Id: '' @ show_str (topic_id tp)))) (\<lambda>_.
     bind (call (SendMessage (root_hederaAccountId root) (root_hederaAccountKey root) tp
                   (VCMessage mintVC relationships))
             (mint_sendMessage env (root_hederaAccountId root) (root_hederaAccountKey root) tp
                   (VCMessage mintVC relationships))) (\<lambda>vcMessageResult.
     (let vcRecord = \<lparr> rec_policyId = mref_policyId env,
                       rec_tag = mref_tag env,
                       rec_type = Some DataTypes_MINT,
                       rec_document = mintVC,
                       rec_owner = did u,
                       rec_schema = JStr (''#'' @ getSubjectType env mintVC),
                       rec_option_type = JUndefined,
                       rec_accounts = None,
                       rec_messageId = Some (getId vcMessageResult),
                       rec_topicId = getTopicId vcMessageResult,
                       rec_relationships = Some relationships,
                       rec_ref = None \<rparr>
      in
     bind (call (UpdateVCRecord vcRecord) (utils_updateVCRecord env vcRecord)) (\<lambda>_.
     bind (call (SendMessage (root_hederaAccountId root) (root_hederaAccountKey root) tp
                   (VPMessage vp (relationships @ [getId vcMessageResult])))
             (mint_sendMessage env (root_hederaAccountId root) (root_hederaAccountKey root) tp
                   (VPMessage vp (relationships @ [getId vcMessageResult])))) (\<lambda>vpMessageResult.
     (let vpRecord = \<lparr> vp_hash = toCredentialHash env vp,
                       vp_document = toJsonTree env vp,
                       vp_owner = did u,
                       vp_type = DataTypes_MINT,
                       vp_policyId = mref_policyId env,
                       vp_tag = mref_tag env,
                       vp_messageId = getId vpMessageResult,
                       vp_topicId = getTopicId vpMessageResult \<rparr>
      in
     bind (call (SaveVP vpRecord) (utils_saveVP env vpRecord)) (\<lambda>_.
     bind (call (MintToken (tok_tokenId tok) tokenValue (root_did root) targetAccountId (getId vpMessageResult))
             (utils_mint env tok tokenValue root targetAccountId (getId vpMessageResult))) (\<lambda>_.
     ret vp)))))))))))))))"

text \<open>The loop of \<^verbatim>\<open>runAction\<close> (lines 220-237) over the documents, with the four arrays it
  fills: \<^verbatim>\<open>vcs\<close>, \<^verbatim>\<open>vsMessages\<close>, \<^verbatim>\<open>topicIds\<close>, \<^verbatim>\<open>accounts\<close>.\<close>

definition push_truthy :: "string list \<Rightarrow> string option \<Rightarrow> string list" where
  "push_truthy xs v = (case v of None \<Rightarrow> xs | Some s \<Rightarrow> if s \<noteq> [] then xs @ [s] else xs)"

fun collect ::
  "mint_env \<Rightarrow> string \<Rightarrow> mint_doc list
     \<Rightarrow> json list \<times> string list \<times> string list \<times> string option list
     \<Rightarrow> error + json list \<times> string list \<times> string list \<times> string option list"
where
  "collect env field [] acc = Inr acc"
| "collect env field (doc # docs) (vcs, vsMessages, topicIds, accounts) =
     (if doc_signature doc = INVALID then Inl (BlockActionError ''Invalid VC proof'')
      else
        (case fromJsonTree env (doc_document doc) of
           Inl e \<Rightarrow> Inl e
         | Inr json \<Rightarrow>
             collect env field docs
               (vcs @ [json],
                push_truthy vsMessages (doc_messageId doc),
                push_truthy topicIds (doc_topicId doc),
                (case doc_accounts doc of
                   None \<Rightarrow> accounts
                 | Some accs \<Rightarrow> accounts @ [map_of accs field]))))"

text \<open>\<^verbatim>\<open>accounts.find(a => a !== firstAccounts)\<close> used as a condition: an element was found
  and it is truthy.\<close>

definition found_other :: "string option list \<Rightarrow> string option \<Rightarrow> bool" where
  "found_other accounts firstAccounts =
     (case find (\<lambda>a. a \<noteq> firstAccounts) accounts of None \<Rightarrow> False | Some a \<Rightarrow> truthy_str a)"

record resolved =
  res_token :: token
  res_vcs :: "json list"
  res_vsMessages :: "string list"
  res_topicId :: "string option"
  res_docOwner :: user
  res_targetAccountId :: "string option"

text \<open>\<^verbatim>\<open>runAction\<close> (lines 195-258): \<open>runAction_resolve\<close> is lines 196-251, up to the
  recipient check; \<open>runAction\<close> continues with lines 253-257.\<close>

definition runAction_resolve :: "mint_env \<Rightarrow> policy_event \<Rightarrow> (resolved, world) action" where
  "runAction_resolve env event =
     bind (await (findOneToken env (mopt_tokenId (mref_options env)))) (\<lambda>tok.
     (case tok of
        None \<Rightarrow> throw (BlockActionError ''Bad token id'')
      | Some tok \<Rightarrow>
     (let docs = ev_docs event in
     if length docs = 0 \<and> first docs \<noteq> None then throw (BlockActionError ''Bad VC'') else
     (case first docs of
        None \<Rightarrow> throw (TypeError ''Cannot read properties of undefined (reading owner)'')
      | Some doc0 \<Rightarrow>
     bind (await (getUserById env (doc_owner doc0))) (\<lambda>docOwner.
     (case docOwner of
        None \<Rightarrow> throw (BlockActionError ''Bad User DID'')
      | Some docOwner \<Rightarrow>
     (let field = (if truthy_str (mopt_accountId (mref_options env))
                   then show_str (mopt_accountId (mref_options env)) else ''default'')
      in
     bind (await (collect env field docs ([], [], [], []))) (\<lambda>(vcs, vsMessages, topicIds, accounts).
     (let firstAccounts = (case first accounts of None \<Rightarrow> None | Some a \<Rightarrow> a) in
     bind (if found_other accounts firstAccounts
           then emit (RefError (''More than one account found! Transfer made on the first (''
                                  @ show_str firstAccounts @ '')''))
           else ret ()) (\<lambda>_.
     (let targetAccountId = (if truthy_str (mopt_accountId (mref_options env))
                             then firstAccounts else hederaAccountId docOwner)
      in
     if \<not> truthy_str targetAccountId then throw (BlockActionError ''Token recipient not set'')
     else ret \<lparr> res_token = tok,
                res_vcs = vcs,
                res_vsMessages = vsMessages,
                res_topicId = first topicIds,
                res_docOwner = docOwner,
                res_targetAccountId = targetAccountId \<rparr>)))))))))))"

definition runAction :: "mint_env \<Rightarrow> policy_event \<Rightarrow> (unit, world) action" where
  "runAction env event =
     bind (runAction_resolve env event) (\<lambda>r.
     bind (await (getHederaAccount env (mref_policyOwner env))) (\<lambda>root.
     bind (mintProcessing env (res_token r) (res_vcs r) (res_vsMessages r) (res_topicId r) root
             (res_docOwner r) (res_targetAccountId r)) (\<lambda>_.
     bind (call (TriggerEvents RunEvent (res_docOwner r) (EventData (ev_data event)))
             (mref_triggerEvents env RunEvent (res_docOwner r) (EventData (ev_data event)))) (\<lambda>_.
     call (TriggerEvents RefreshEvent (res_docOwner r) (EventData (ev_data event)))
       (mref_triggerEvents env RefreshEvent (res_docOwner r) (EventData (ev_data event)))))))"

text \<open>The \<^verbatim>\<open>accounts\<close> array the loop builds from the documents: for each document that has
  an accounts object, the value of the field in it (\<open>None\<close> when the object has no such
  field).\<close>

definition account_values :: "string \<Rightarrow> mint_doc list \<Rightarrow> string option list" where
  "account_values field docs =
     concat (map (\<lambda>doc. case doc_accounts doc of None \<Rightarrow> [] | Some accs \<Rightarrow> [map_of accs field]) docs)"

fun is_send :: "effect \<Rightarrow> bool" where
  "is_send (SendMessage acc k tp m) = True"
| "is_send eff = False"

fun is_vp_send :: "effect \<Rightarrow> bool" where
  "is_vp_send (SendMessage acc k tp (VPMessage vp rels)) = True"
| "is_vp_send eff = False"

section \<open>Sample configurations\<close>

text \<open>Two actors, a freshly constructed Request block (its state object is
  \<^verbatim>\<open>{ active: true }\<close>, its schema not yet loaded) and a Request block environment in which
  every collaborator answers; they are the concrete inputs of the examples below.\<close>

definition alice :: user where
  "alice = \<lparr> did = Some ''did:alice'', hederaAccountId = Some ''0.0.1001'', walletToken = ''wallet-a'' \<rparr>"

definition bob :: user where
  "bob = \<lparr> did = Some ''did:bob'', hederaAccountId = Some ''0.0.1002'', walletToken = ''wallet-b'' \<rparr>"

definition anonymous :: user where
  "anonymous = \<lparr> did = None, hederaAccountId = None, walletToken = ''wallet-c'' \<rparr>"

text \<open>Three actors whose did is a property name the state object treats in its own way.\<close>

definition actor_hasOwnProperty :: user where
  "actor_hasOwnProperty =
     \<lparr> did = Some ''hasOwnProperty'', hederaAccountId = Some ''0.0.1003'', walletToken = ''wallet-h'' \<rparr>"

definition actor_proto :: user where
  "actor_proto = \<lparr> did = Some ''__proto__'', hederaAccountId = Some ''0.0.1004'', walletToken = ''wallet-p'' \<rparr>"

definition actor_active :: user where
  "actor_active = \<lparr> did = Some ''active'', hederaAccountId = Some ''0.0.1005'', walletToken = ''wallet-v'' \<rparr>"

definition new_block :: request_world where
  "new_block = \<lparr> trace = [], draws = 0, state = [''active'' \<mapsto> Prim True], schema = None \<rparr>"

definition accepting_validator :: child_block where
  "accepting_validator = \<lparr> blockClassName = ''ValidatorBlock'', run = (\<lambda>u item. Inr True) \<rparr>"

definition rejecting_validator :: child_block where
  "rejecting_validator = \<lparr> blockClassName = ''ValidatorBlock'', run = (\<lambda>u item. Inr False) \<rparr>"

definition sample_topic :: topic where
  "sample_topic = \<lparr> topic_id = Some ''topic-1'', topic_topicId = ''0.0.2000'' \<rparr>"

definition sample_options :: request_options where
  "sample_options =
     \<lparr> opt_schema = JStr ''#schema'',
       opt_presetSchema = JUndefined,
       opt_idType = Some ''OWNER'',
       opt_presetFields = JUndefined,
       opt_uiMetaData = JUndefined,
       opt_hideFields = JUndefined \<rparr>"

definition sample_env :: request_env where
  "sample_env =
     \<lparr> ref_uuid = ''block-1'',
       ref_blockType = ''requestVcDocumentBlock'',
       ref_policyId = ''policy-1'',
       ref_tag = ''request'',
       ref_topicId = ''0.0.2000'',
       ref_options = sample_options,
       ref_children = [accepting_validator],
       updateBlock = (\<lambda>blockState u. Inr ()),
       triggerEvents = (\<lambda>t u p. Inr ()),
       getSources = (\<lambda>u. Inr []),
       findOneSchema = (\<lambda>iri tid. if iri = JStr ''#schema'' then Inr (Some ''schema'') else Inr None),
       wallet_getKey = (\<lambda>tok d. Inr ''key''),
       wallet_setKey = (\<lambda>tok d k. Inr ()),
       utils_getRelationships = (\<lambda>pid r. Inr None),
       utils_getSubjectId = (\<lambda>j. j),
       utils_getHederaAccounts = (\<lambda>vc acc sch. ''{}''),
       utils_getTopic = Inr sample_topic,
       verifySubject = (\<lambda>cs. Inr (True, ''null'')),
       createVC = (\<lambda>d k cs. Inr ''vc''),
       GenerateUUIDv4 = (\<lambda>n. replicate (Suc n) CHR ''u''),
       DIDDocument_create = (\<lambda>tid n. \<lparr> getDid = ''did:new'', getPrivateKeyString = ''private'',
                                         getDocument = ''did-document'' \<rparr>),
       sendMessage = (\<lambda>acc k tp m. Inr \<lparr> getId = ''1.1'', getTopicId = Some ''0.0.2000'' \<rparr>),
       save_did = (\<lambda>r. Inr ()) \<rparr>"

definition sample_data :: request_data where
  "sample_data =
     \<lparr> document = Some \<lparr> subject_fields = ''{}'', subject_id = None, subject_ref = None,
                          subject_policyId = None \<rparr>,
       ref = JUndefined \<rparr>"

text \<open>The Mint block's inputs: a token, the policy owner's account, three documents whose
  accounts object names the recipient (\<^verbatim>\<open>0.0.7\<close>, \<^verbatim>\<open>0.0.7\<close>, \<^verbatim>\<open>0.0.8\<close>) and one whose
  accounts object has no such field, and an environment in which every collaborator
  answers.\<close>

definition sample_token :: token where
  "sample_token = \<lparr> tok_tokenId = ''0.0.3000'', tok_json = ''{}'' \<rparr>"

definition sample_root :: root_account where
  "sample_root = \<lparr> root_did = ''did:root'', root_hederaAccountId = Some ''0.0.1'',
                    root_hederaAccountKey = ''root-key'' \<rparr>"

definition doc_x1 :: mint_doc where
  "doc_x1 = \<lparr> doc_owner = Some ''did:alice'', doc_signature = VERIFIED, doc_document = ''doc-1'',
               doc_messageId = Some ''1.001'', doc_topicId = Some ''0.0.2000'',
               doc_accounts = Some [(''recipient'', ''0.0.7'')] \<rparr>"

definition doc_x2 :: mint_doc where
  "doc_x2 = \<lparr> doc_owner = Some ''did:alice'', doc_signature = VERIFIED, doc_document = ''doc-2'',
               doc_messageId = Some ''1.002'', doc_topicId = None,
               doc_accounts = Some [(''recipient'', ''0.0.7'')] \<rparr>"

definition doc_y :: mint_doc where
  "doc_y = \<lparr> doc_owner = Some ''did:alice'', doc_signature = VERIFIED, doc_document = ''doc-3'',
              doc_messageId = None, doc_topicId = None,
              doc_accounts = Some [(''recipient'', ''0.0.8'')] \<rparr>"

definition doc_other :: mint_doc where
  "doc_other = \<lparr> doc_owner = Some ''did:alice'', doc_signature = VERIFIED, doc_document = ''doc-4'',
                  doc_messageId = Some ''1.004'', doc_topicId = None,
                  doc_accounts = Some [(''default'', ''0.0.1001'')] \<rparr>"

definition sample_mint_options :: mint_options where
  "sample_mint_options =
     \<lparr> mopt_tokenId = JStr ''0.0.3000'', mopt_rule = JStr ''field0'', mopt_accountId = Some ''recipient'' \<rparr>"

definition sample_mint_env :: mint_env where
  "sample_mint_env =
     \<lparr> mref_policyId = ''policy-1'',
       mref_tag = ''mint'',
       mref_topicId = ''0.0.2000'',
       mref_policyOwner = ''did:root'',
       mref_options = sample_mint_options,
       mref_triggerEvents = (\<lambda>t u p. Inr ()),
       findOneToken = (\<lambda>tid. if tid = JStr ''0.0.3000'' then Inr (Some sample_token) else Inr None),
       getUserById = (\<lambda>d. if d = Some ''did:alice'' then Inr (Some alice) else Inr None),
       getHederaAccount = (\<lambda>d. Inr sample_root),
       fromJsonTree = (\<lambda>j. Inr j),
       mint_GenerateUUIDv4 = (\<lambda>n. replicate (Suc n) CHR ''u''),
       utils_aggregate = (\<lambda>rule docs. Inr (Finite (int (length docs)))),
       utils_tokenAmount = (\<lambda>tok n. (n, ''amount'')),
       utils_getSchema = (\<lambda>tid. Inr ''mint-schema''),
       getContext = (\<lambda>j. j),
       now_ISO = ''2022-01-01T00:00:00.000Z'',
       mint_createVC = (\<lambda>d k subject. Inr ''mint-vc''),
       helper_createVP = (\<lambda>d k vcs uuid. Inr ''vp''),
       utils_getTopicById = (\<lambda>tid. Inr sample_topic),
       utils_getTopic_root = (\<lambda>root u. Inr sample_topic),
       mint_sendMessage = (\<lambda>acc k tp m.
          Inr \<lparr> getId = (case m of VCMessage vc rels \<Rightarrow> ''1.100'' | VPMessage vp rels \<Rightarrow> ''1.200''
                             | DIDMessage d \<Rightarrow> ''1.300''),
                getTopicId = Some ''0.0.2000'' \<rparr>),
       utils_updateVCRecord = (\<lambda>r. Inr ()),
       utils_saveVP = (\<lambda>r. Inr ()),
       utils_mint = (\<lambda>tok v root target mid. Inr ()),
       getSubjectType = (\<lambda>vc. ''MintToken''),
       toCredentialHash = (\<lambda>vp. ''hash''),
       toJsonTree = (\<lambda>vp. vp) \<rparr>"

definition mint_world0 :: world where
  "mint_world0 = \<lparr> trace = [], draws = 0 \<rparr>"

section \<open>Request block: per-actor state\<close>

lemmas state_defs = hasOwnProperty_def assign_property_def









lemmas eval_defs =
  setData_def setData_try_def setData_build_def setData_catch_def changeActive_def getActive_def
  hasOwnProperty_def assign_property_def getData_def
  getRelationships_def getSchema_def generateId_def validateDocuments_def getValidators_def
  bind_def ret_def throw_def try_catch_def await_def call_def emit_def draw_def state_key_def
  sample_env_def sample_options_def sample_data_def new_block_def alice_def bob_def
  actor_hasOwnProperty_def actor_proto_def actor_active_def
  accepting_validator_def rejecting_validator_def sample_topic_def




text \<open>
  Claim C5, as amended. Availability gate: while the state object has no entry under the
  name \<^verbatim>\<open>hasOwnProperty\<close>, \<open>getActive\<close> returns true for an actor under whose did the
  state object has no entry; \<open>setData\<close> for an actor without a did throws
  \<^verbatim>\<open>User have no any did\<close>, and \<open>setData\<close> for an actor whose entry has \<^verbatim>\<open>active\<close> false,
  while the state object has no entry under \<^verbatim>\<open>hasOwnProperty\<close>, throws
  \<^verbatim>\<open>Block not available\<close>; in both cases it has done nothing but write its log line: the
  state is as it was and \<open>changeActive\<close> has not run.
\<close>

theorem availability_gate:
  "(state w ''hasOwnProperty'' = None \<and> state w (state_key u) = None \<longrightarrow> fst (getActive u w) = Inr True)
 \<and> (\<not> truthy_str (did u) \<longrightarrow>
      setData env u data w =
        (Inl (BlockActionError ''User have no any did''), w\<lparr>trace := trace w @ [RefLog ''setData'']\<rparr>))
 \<and> (truthy_str (did u) \<and> state w ''hasOwnProperty'' = None
      \<and> state w (state_key u) = Some (Blob (Some False)) \<longrightarrow>
      setData env u data w =
        (Inl (BlockActionError ''Block not available''), w\<lparr>trace := trace w @ [RefLog ''setData'']\<rparr>))"
  by (simp add: setData_def getActive_def state_defs bind_def emit_def throw_def)

text \<open>
  Claim C5, as stated, fails. On a new block the state object holds the boolean \<^verbatim>\<open>true\<close>
  under \<^verbatim>\<open>active\<close>: the actor whose did is \<^verbatim>\<open>active\<close> has no state of its own, and
  \<open>getActive\<close> throws for it. After \<open>getActive\<close> has run for the actor whose did is
  \<^verbatim>\<open>hasOwnProperty\<close>, \<open>getActive\<close> throws for an actor without an entry, and \<open>setData\<close>
  for an actor whose entry has \<^verbatim>\<open>active\<close> false throws the runtime's \<^verbatim>\<open>TypeError\<close>, not
  \<^verbatim>\<open>Block not available\<close>.
\<close>

theorem availability_gate_counterexample:
  "state new_block (state_key actor_active) = Some (Prim True)
 \<and> fst (getActive actor_active new_block) = Inl (TypeError ''Cannot create property active on boolean'')
 \<and> state (snd (getActive actor_hasOwnProperty new_block)) (state_key bob) = None
 \<and> fst (getActive bob (snd (getActive actor_hasOwnProperty new_block)))
     = Inl (TypeError ''this.state.hasOwnProperty is not a function'')
 \<and> state (snd (getActive actor_hasOwnProperty (snd (changeActive sample_env bob False new_block))))
       (state_key bob) = Some (Blob (Some False))
 \<and> fst (setData sample_env bob sample_data
          (snd (getActive actor_hasOwnProperty (snd (changeActive sample_env bob False new_block)))))
     = Inl (TypeError ''this.state.hasOwnProperty is not a function'')"
  by (simp add: eval_defs)

theorem availability_gate_witness:
  "state new_block ''hasOwnProperty'' = None
 \<and> state new_block (state_key alice) = None \<and> fst (getActive alice new_block) = Inr True
 \<and> \<not> truthy_str (did anonymous)
 \<and> setData sample_env anonymous sample_data new_block =
      (Inl (BlockActionError ''User have no any did''), new_block\<lparr>trace := [RefLog ''setData'']\<rparr>)
 \<and> truthy_str (did alice)
 \<and> state (snd (changeActive sample_env alice False new_block)) ''hasOwnProperty'' = None
 \<and> state (snd (changeActive sample_env alice False new_block)) (state_key alice) = Some (Blob (Some False))
 \<and> fst (setData sample_env alice sample_data (snd (changeActive sample_env alice False new_block))) =
      Inl (BlockActionError ''Block not available'')"
proof -
  let ?busy = "snd (changeActive sample_env alice False new_block)"
  have h: "state new_block ''hasOwnProperty'' = None" by (simp add: new_block_def)
  have k: "state new_block (state_key alice) = None"
    by (simp add: new_block_def state_key_def alice_def)
  have a: "\<not> truthy_str (did anonymous)" by (simp add: anonymous_def)
  have t: "truthy_str (did alice)" by (simp add: alice_def)
  have hb: "state ?busy ''hasOwnProperty'' = None" by (simp add: eval_defs)
  have b: "state ?busy (state_key alice) = Some (Blob (Some False))" by (simp add: eval_defs)
  from availability_gate[of new_block alice sample_env sample_data] h k
  have 1: "fst (getActive alice new_block) = Inr True" by blast
  from availability_gate[of new_block anonymous sample_env sample_data] a
  have 2: "setData sample_env anonymous sample_data new_block =
      (Inl (BlockActionError ''User have no any did''), new_block\<lparr>trace := [RefLog ''setData'']\<rparr>)"
    by (simp add: new_block_def)
  from availability_gate[of ?busy alice sample_env sample_data] t hb b
  have 3: "fst (setData sample_env alice sample_data ?busy) = Inl (BlockActionError ''Block not available'')"
    by simp
  show ?thesis using h k a t hb b 1 2 3 by simp
qed

text \<open>For the actor whose did is \<^verbatim>\<open>__proto__\<close> no entry is ever stored: \<open>changeActive\<close>
  with false leaves the state object without an entry for it, and \<open>getActive\<close> returns
  true afterwards.\<close>

lemma proto_never_busy:
  "state (snd (changeActive sample_env actor_proto False new_block)) (state_key actor_proto) = None
 \<and> fst (getActive actor_proto (snd (changeActive sample_env actor_proto False new_block))) = Inr True"
  by (simp add: eval_defs)

section \<open>Request block: id generation\<close>

text \<open>
  Claim C8. \<open>generateId\<close> with \<^verbatim>\<open>OWNER\<close> returns the actor's did and changes nothing; with
  \<^verbatim>\<open>UUID\<close> it returns the next draw of \<^verbatim>\<open>GenerateUUIDv4\<close>, so that two calls in a row return
  different identifiers when the generator never repeats; with \<^verbatim>\<open>DID\<close>, when the
  collaborators answer, it creates a DID document, sends it to the ledger, saves its
  record, stores the private key in the wallet under the new did and returns that did;
  with any other id type, or none, it returns no identifier.
\<close>

theorem generateId_policy:
  "(idType = Some ''OWNER'' \<longrightarrow> generateId env idType u acc key w = (Inr (did u), w))
 \<and> (idType = Some ''UUID'' \<longrightarrow>
      generateId env idType u acc key w =
        (Inr (Some (GenerateUUIDv4 env (draws w))), w\<lparr>draws := Suc (draws w)\<rparr>))
 \<and> (idType = Some ''UUID'' \<and> inj (GenerateUUIDv4 env) \<longrightarrow>
      fst (generateId env idType u acc key (snd (generateId env idType u acc key w)))
        \<noteq> fst (generateId env idType u acc key w))
 \<and> (idType = Some ''DID'' \<and> utils_getTopic env = Inr tp
      \<and> d = DIDDocument_create env (topic_topicId tp) (draws w)
      \<and> sendMessage env acc key tp (DIDMessage d) = Inr mr
      \<and> r = \<lparr> did_did = getDid d, did_document = getDocument d, did_status = ''CREATE'',
               did_messageId = getId mr, did_topicId = getTopicId mr \<rparr>
      \<and> save_did env r = Inr ()
      \<and> wallet_setKey env (walletToken u) (getDid d) (getPrivateKeyString d) = Inr () \<longrightarrow>
      generateId env idType u acc key w =
        (Inr (Some (getDid d)),
         w\<lparr>draws := Suc (draws w),
           trace := trace w @ [SendMessage acc key tp (DIDMessage d), SaveDidDocument r,
                               WalletSetKey (walletToken u) (getDid d) (getPrivateKeyString d)]\<rparr>))
 \<and> (idType \<noteq> Some ''UUID'' \<and> idType \<noteq> Some ''DID'' \<and> idType \<noteq> Some ''OWNER'' \<longrightarrow>
      generateId env idType u acc key w = (Inr None, w))"
  by (auto simp: generateId_def try_catch_def bind_def ret_def draw_def await_def call_def dest!: injD)

theorem generateId_policy_witness:
  "generateId sample_env (Some ''OWNER'') alice (Some ''0.0.1001'') ''key'' new_block
     = (Inr (Some ''did:alice''), new_block)
 \<and> generateId sample_env (Some ''UUID'') alice (Some ''0.0.1001'') ''key'' new_block
     = (Inr (Some ''u''), new_block\<lparr>draws := 1\<rparr>)
 \<and> inj (GenerateUUIDv4 sample_env)
 \<and> fst (generateId sample_env (Some ''UUID'') alice (Some ''0.0.1001'') ''key''
          (snd (generateId sample_env (Some ''UUID'') alice (Some ''0.0.1001'') ''key'' new_block)))
     \<noteq> Inr (Some ''u'')
 \<and> generateId sample_env (Some ''DID'') alice (Some ''0.0.1001'') ''key'' new_block
     = (Inr (Some ''did:new''),
        new_block\<lparr>draws := 1,
          trace := [SendMessage (Some ''0.0.1001'') ''key'' sample_topic
                      (DIDMessage \<lparr> getDid = ''did:new'', getPrivateKeyString = ''private'',
                                    getDocument = ''did-document'' \<rparr>),
                    SaveDidDocument \<lparr> did_did = ''did:new'', did_document = ''did-document'',
                                      did_status = ''CREATE'', did_messageId = ''1.1'',
                                      did_topicId = Some ''0.0.2000'' \<rparr>,
                    WalletSetKey ''wallet-a'' ''did:new'' ''private'']\<rparr>)
 \<and> generateId sample_env None alice (Some ''0.0.1001'') ''key'' new_block = (Inr None, new_block)"
proof -
  let ?d = "\<lparr> getDid = ''did:new'', getPrivateKeyString = ''private'', getDocument = ''did-document'' \<rparr>"
  let ?mr = "\<lparr> getId = ''1.1'', getTopicId = Some ''0.0.2000'' \<rparr>"
  let ?r = "\<lparr> did_did = ''did:new'', did_document = ''did-document'', did_status = ''CREATE'',
              did_messageId = ''1.1'', did_topicId = Some ''0.0.2000'' \<rparr>"
  have i: "inj (GenerateUUIDv4 sample_env)" by (simp add: sample_env_def inj_def)
  have 1: "generateId sample_env (Some ''OWNER'') alice (Some ''0.0.1001'') ''key'' new_block
     = (Inr (Some ''did:alice''), new_block)"
    using generateId_policy[where idType="Some ''OWNER''" and env=sample_env and u=alice
        and acc="Some ''0.0.1001''" and key="''key''" and w=new_block]
    by (simp add: alice_def)
  have 2: "generateId sample_env (Some ''UUID'') alice (Some ''0.0.1001'') ''key'' new_block
     = (Inr (Some ''u''), new_block\<lparr>draws := 1\<rparr>)"
    using generateId_policy[where idType="Some ''UUID''" and env=sample_env and u=alice
        and acc="Some ''0.0.1001''" and key="''key''" and w=new_block]
    by (simp add: sample_env_def new_block_def)
  have 3: "fst (generateId sample_env (Some ''UUID'') alice (Some ''0.0.1001'') ''key''
          (snd (generateId sample_env (Some ''UUID'') alice (Some ''0.0.1001'') ''key'' new_block)))
     \<noteq> Inr (Some ''u'')"
  proof -
    have "fst (generateId sample_env (Some ''UUID'') alice (Some ''0.0.1001'') ''key''
          (snd (generateId sample_env (Some ''UUID'') alice (Some ''0.0.1001'') ''key'' new_block)))
     \<noteq> fst (generateId sample_env (Some ''UUID'') alice (Some ''0.0.1001'') ''key'' new_block)"
      using generateId_policy[where idType="Some ''UUID''" and env=sample_env and u=alice
        and acc="Some ''0.0.1001''" and key="''key''" and w=new_block] i
      by blast
    then show ?thesis by (simp add: 2)
  qed
  have 4: "generateId sample_env (Some ''DID'') alice (Some ''0.0.1001'') ''key'' new_block
     = (Inr (Some (getDid ?d)),
        new_block\<lparr>draws := Suc (draws new_block),
          trace := trace new_block @ [SendMessage (Some ''0.0.1001'') ''key'' sample_topic (DIDMessage ?d),
                    SaveDidDocument ?r,
                    WalletSetKey (walletToken alice) (getDid ?d) (getPrivateKeyString ?d)]\<rparr>)"
    using generateId_policy[where idType="Some ''DID''" and env=sample_env and u=alice
        and acc="Some ''0.0.1001''" and key="''key''" and w=new_block
        and tp=sample_topic and d="?d" and mr="?mr" and r="?r"]
    by (simp add: sample_env_def)
  have 5: "generateId sample_env None alice (Some ''0.0.1001'') ''key'' new_block = (Inr None, new_block)"
    using generateId_policy[of None sample_env alice "Some ''0.0.1001''" "''key''" new_block]
    by simp
  show ?thesis using i 1 2 3 4 5 by (simp add: new_block_def alice_def)
qed

section \<open>Request block: validation of the options\<close>

text \<open>
  Claim C10. \<open>validate\<close> adds at most one error to the results container. When the
  \<^verbatim>\<open>schema\<close> option is not set, is not a string, or names no schema of the repository, the
  one error added is the one about \<^verbatim>\<open>schema\<close>, whatever the \<^verbatim>\<open>presetSchema\<close> option is.
\<close>

theorem validate_single_error:
  \<open>(\<exists>errs. validate env rc = rc @ errs \<and> length errs \<le> 1)
 \<and> (\<not> truthy (opt_schema (ref_options env)) \<longrightarrow>
      validate env rc = rc @ [(ref_uuid env, ''Option "schema" does not set'')])
 \<and> (truthy (opt_schema (ref_options env)) \<and> \<not> is_string (opt_schema (ref_options env)) \<longrightarrow>
      validate env rc = rc @ [(ref_uuid env, ''Option "schema" must be a string'')])
 \<and> (truthy (opt_schema (ref_options env)) \<and> is_string (opt_schema (ref_options env))
      \<and> findOneSchema env (opt_schema (ref_options env)) (ref_topicId env) = Inr None \<longrightarrow>
      validate env rc =
        rc @ [(ref_uuid env,
               ''Schema with id "'' @ show_jsval (opt_schema (ref_options env)) @ ''" does not exist'')])\<close>
  by (auto simp: validate_def validate_try_def addBlockError_def split: sum.splits option.splits)

theorem validate_single_error_witness:
  \<open>validate (sample_env\<lparr>ref_options := sample_options\<lparr>opt_schema := JUndefined,
                                                        opt_presetSchema := JStr ''#missing''\<rparr>\<rparr>) []
     = [(''block-1'', ''Option "schema" does not set'')]
 \<and> validate (sample_env\<lparr>ref_options := sample_options\<lparr>opt_schema := JNum (Finite 5),
                                                        opt_presetSchema := JStr ''#missing''\<rparr>\<rparr>) []
     = [(''block-1'', ''Option "schema" must be a string'')]
 \<and> validate (sample_env\<lparr>ref_options := sample_options\<lparr>opt_schema := JStr ''#unknown'',
                                                        opt_presetSchema := JStr ''#missing''\<rparr>\<rparr>) []
     = [(''block-1'', ''Schema with id "#unknown" does not exist'')]\<close>
proof -
  let ?e1 = "sample_env\<lparr>ref_options := sample_options\<lparr>opt_schema := JUndefined,
                                                        opt_presetSchema := JStr ''#missing''\<rparr>\<rparr>"
  let ?e2 = "sample_env\<lparr>ref_options := sample_options\<lparr>opt_schema := JNum (Finite 5),
                                                        opt_presetSchema := JStr ''#missing''\<rparr>\<rparr>"
  let ?e3 = "sample_env\<lparr>ref_options := sample_options\<lparr>opt_schema := JStr ''#unknown'',
                                                        opt_presetSchema := JStr ''#missing''\<rparr>\<rparr>"
  show ?thesis
    using validate_single_error[of ?e1 "[]"] validate_single_error[of ?e2 "[]"]
      validate_single_error[of ?e3 "[]"]
    by (simp add: sample_env_def sample_options_def is_string_def)
qed

section \<open>Request block: the Busy gate of setData\<close>

lemma preservesD: "preserves P m \<Longrightarrow> P w \<Longrightarrow> m w = (r, w') \<Longrightarrow> P w'"
  by (auto simp: preserves_def)

lemma preserves_ret: "preserves P (ret x)"
  by (simp add: preserves_def ret_def)

lemma preserves_throw: "preserves P (throw e)"
  by (simp add: preserves_def throw_def)

lemma preserves_await: "preserves P (await r)"
  by (simp add: preserves_def await_def)

lemma preserves_bind:
  "preserves P m \<Longrightarrow> (\<And>x. preserves P (f x)) \<Longrightarrow> preserves P (bind m f)"
  by (auto simp: preserves_def bind_def split: prod.splits sum.splits)

lemma preserves_try_catch:
  "preserves P m \<Longrightarrow> (\<And>e. preserves P (h e)) \<Longrightarrow> preserves P (try_catch m h)"
  by (auto simp: preserves_def try_catch_def split: prod.splits sum.splits)

lemma preserves_if:
  "(c \<Longrightarrow> preserves P a) \<Longrightarrow> (\<not> c \<Longrightarrow> preserves P b) \<Longrightarrow> preserves P (if c then a else b)"
  by simp

lemma preserves_case_option:
  "preserves P a \<Longrightarrow> (\<And>x. preserves P (f x)) \<Longrightarrow> preserves P (case opt of None \<Rightarrow> a | Some x \<Rightarrow> f x)"
  by (cases opt) simp_all

lemma preserves_call: "stable Q k P \<Longrightarrow> Q eff \<Longrightarrow> preserves P (call eff r)"
  by (simp add: preserves_def call_def stable_def)

lemma preserves_emit: "stable Q k P \<Longrightarrow> Q eff \<Longrightarrow> preserves P (emit eff)"
  by (simp add: preserves_def emit_def stable_def)

lemma preserves_draw: "stable Q k P \<Longrightarrow> preserves P (draw g)"
  by (simp add: preserves_def draw_def stable_def)

lemma preserves_changeActive:
  assumes st: "stable Q (state_key u) P" and q: "\<And>e. quiet e \<Longrightarrow> Q e"
  shows "preserves P (changeActive env u a)"
proof -
  have q1: "Q (UpdateBlock (Blob (Some a)) u)" and q2: "Q (TriggerEvents RefreshEvent u Null)"
    by (simp_all add: q)
  have inner: "preserves P
     (bind (call (UpdateBlock (Blob (Some a)) u) (updateBlock env (Blob (Some a)) u))
        (\<lambda>_. call (TriggerEvents RefreshEvent u Null) (triggerEvents env RefreshEvent u Null)))"
    by (intro preserves_bind preserves_call[OF st] q1 q2)
  have upd: "\<And>w. P w \<Longrightarrow> P (w\<lparr>state := (state w)(state_key u \<mapsto> Blob (Some a))\<rparr>)"
    using st by (simp add: stable_def)
  have asg: "\<And>w. P w \<Longrightarrow> P (w\<lparr>state := assign_property (state w) (state_key u) (Blob (Some a))\<rparr>)"
    using upd by (simp add: assign_property_def)
  show ?thesis
    unfolding preserves_def
  proof (intro allI impI)
    fix w assume "P w"
    then show "P (snd (changeActive env u a w))"
      using inner upd[of w] asg[of w]
      by (auto simp: changeActive_def hasOwnProperty_def preserves_def
               split: option.splits entry.splits)
  qed
qed

lemma preserves_getSchema:
  assumes st: "stable Q k P"
  shows "preserves P (getSchema env)"
  using st by (auto simp: preserves_def getSchema_def stable_def split: option.splits sum.splits)

lemma preserves_getRelationships:
  assumes st: "stable Q k P" and q: "\<And>e. quiet e \<Longrightarrow> Q e"
  shows "preserves P (getRelationships env pid r)"
  unfolding getRelationships_def
  by (intro preserves_try_catch preserves_await preserves_bind preserves_emit[OF st] preserves_throw q) simp

lemma preserves_generateId:
  assumes st: "stable Q k P" and q: "\<And>e. quiet e \<Longrightarrow> Q e"
  shows "preserves P (generateId env idType u acc key)"
  unfolding generateId_def
  by (intro preserves_try_catch preserves_await preserves_bind preserves_emit[OF st] preserves_throw
        preserves_if preserves_draw[OF st] preserves_ret preserves_call[OF st] q) simp_all


lemma preserves_setData_build:
  assumes st: "stable Q (state_key u) P" and q: "\<And>e. quiet e \<Longrightarrow> Q e"
  shows "preserves P (setData_build env u data)"
  unfolding setData_build_def Let_def
  by (intro preserves_bind preserves_changeActive[OF st q] preserves_await
        preserves_getRelationships[OF st q] preserves_getSchema[OF st] preserves_generateId[OF st q]
        preserves_case_option preserves_throw preserves_if preserves_ret)



lemma stable_no_boolean:
  "k \<noteq> ''hasOwnProperty'' \<Longrightarrow>
     stable (\<lambda>eff. True) k (\<lambda>w. state w ''hasOwnProperty'' = None \<and> (\<forall>b. state w k \<noteq> Some (Prim b)))"
  by (simp add: stable_def)

lemma stable_quiet_trace:
  "stable quiet k (\<lambda>w. \<exists>new. trace w = t0 @ new \<and> (\<forall>eff\<in>set new. quiet eff))"
  by (auto simp: stable_def)

lemma build_no_boolean:
  "state_key u \<noteq> ''hasOwnProperty'' \<Longrightarrow>
     preserves (\<lambda>w. state w ''hasOwnProperty'' = None \<and> (\<forall>b. state w (state_key u) \<noteq> Some (Prim b)))
       (setData_build env u data)"
  by (rule preserves_setData_build[OF stable_no_boolean]) simp_all

lemma build_quiet:
  "preserves (\<lambda>w. \<exists>new. trace w = t0 @ new \<and> (\<forall>eff\<in>set new. quiet eff))
     (setData_build env u data)"
  by (rule preserves_setData_build[OF stable_quiet_trace])

text \<open>What a \<open>getActive\<close> that returns true has found and left behind.\<close>

lemma getActive_True:
  assumes "getActive u w = (Inr True, w1)"
  shows "state w ''hasOwnProperty'' = None" and "trace w1 = trace w"
    and "state w1 (state_key u) = Some (Blob (Some True))
           \<or> (state_key u = ''__proto__'' \<and> state w1 (state_key u) = None)"
    and "state_key u \<noteq> ''hasOwnProperty'' \<Longrightarrow> state w1 ''hasOwnProperty'' = None"
    and "state_key u = ''hasOwnProperty'' \<Longrightarrow> state w1 ''hasOwnProperty'' \<noteq> None"
  using assms
  by (auto simp: getActive_def hasOwnProperty_def assign_property_def
           split: option.splits entry.splits if_splits)


lemma validateDocuments_world: "snd (validateDocuments env u item w) = w"
proof -
  have "snd (run_validators vs u item w) = w" for vs
    by (induction vs) (auto simp: ret_def bind_def await_def split: sum.splits)
  then show ?thesis by (simp add: validateDocuments_def)
qed






text \<open>
  Claim C6, as amended. When the document has been built and a validator returns false,
  and restoring the state does not itself throw, \<open>setData\<close> throws the
  \<^verbatim>\<open>BlockActionError\<close> that wraps the error \<^verbatim>\<open>Invalid document\<close>, \<^verbatim>\<open>active\<close> true has been
  assigned for the actor as \<open>changeActive\<close> assigns it (in the actor's entry, or in a new
  entry where there was none; for the did \<^verbatim>\<open>__proto__\<close> the state object keeps no entry),
  and the trace of the call is quiet: no Run event and no Refresh event carrying the
  document. The Refresh event with a \<^verbatim>\<open>null\<close> payload that \<open>changeActive\<close> triggers is
  in the trace.
\<close>

theorem validator_rejection:
  assumes did: "truthy_str (did u)"
      and act: "getActive u (w\<lparr>trace := trace w @ [RefLog ''setData'']\<rparr>) = (Inr True, w1)"
      and build: "setData_build env u data w1 = (Inr item, w2)"
      and rej: "fst (validateDocuments env u item w2) = Inr False"
      and upd: "updateBlock env (Blob (Some True)) u = Inr ()"
      and ev: "triggerEvents env RefreshEvent u Null = Inr ()"
  shows "\<exists>new. setData env u data w =
           (Inl (BlockActionError_of (BlockActionError ''Invalid document'')),
            w2\<lparr>state := (if state w2 (state_key u) = None
                          then assign_property (state w2) (state_key u) (Blob (Some True))
                          else (state w2)(state_key u \<mapsto> Blob (Some True))),
                trace := trace w @ new\<rparr>)
         \<and> (\<forall>eff\<in>set new. quiet eff)
         \<and> TriggerEvents RefreshEvent u Null \<in> set new"
proof -
  note g = getActive_True[OF act]
  have t1: "trace w1 = trace w @ [RefLog ''setData'']" using g(2) by simp
  have h1: "state w1 ''hasOwnProperty'' = None"
    using build
    by (auto simp: setData_build_def bind_def changeActive_def hasOwnProperty_def
             split: option.splits)
  have nk: "state_key u \<noteq> ''hasOwnProperty''" using g(5) h1 by blast
  have np1: "\<forall>b. state w1 (state_key u) \<noteq> Some (Prim b)" using g(3) by auto
  have run: "setData env u data w = try_catch (setData_try env u data) (setData_catch env u) w1"
    using did act by (simp add: setData_def bind_def emit_def)
  have inv: "state w2 ''hasOwnProperty'' = None \<and> (\<forall>b. state w2 (state_key u) \<noteq> Some (Prim b))"
    using preservesD[OF build_no_boolean[OF nk] _ build] h1 np1 by simp
  have "\<exists>new. trace w2 = trace w1 @ new \<and> (\<forall>eff\<in>set new. quiet eff)"
    using preservesD[OF build_quiet[where ?t0.0="trace w1"] _ build] by simp
  then obtain new1 where n1: "trace w2 = trace w1 @ new1" and q1: "\<forall>eff\<in>set new1. quiet eff"
    by blast
  have v: "validateDocuments env u item w2 = (Inr False, w2)"
    using rej validateDocuments_world[of env u item w2] by (simp add: prod_eq_iff)
  have tried: "setData_try env u data w1 = (Inl (BlockActionError ''Invalid document''), w2)"
    using build v by (simp add: setData_try_def bind_def throw_def)
  let ?tail = "[RefError ''setData: Invalid document'', UpdateBlock (Blob (Some True)) u,
                TriggerEvents RefreshEvent u Null]"
  let ?st = "if state w2 (state_key u) = None
             then assign_property (state w2) (state_key u) (Blob (Some True))
             else (state w2)(state_key u \<mapsto> Blob (Some True))"
  have caught: "setData_catch env u (BlockActionError ''Invalid document'') w2 =
      (Inl (BlockActionError_of (BlockActionError ''Invalid document'')),
       w2\<lparr>state := ?st, trace := trace w2 @ ?tail\<rparr>)"
    using inv upd ev
    by (auto simp: setData_catch_def bind_def emit_def changeActive_def hasOwnProperty_def
                   call_def throw_def
             split: option.splits entry.splits)
  let ?new = "[RefLog ''setData''] @ new1 @ ?tail"
  have "setData env u data w =
           (Inl (BlockActionError_of (BlockActionError ''Invalid document'')),
            w2\<lparr>state := ?st, trace := trace w @ ?new\<rparr>)"
    using run tried caught n1 t1 by (simp add: try_catch_def)
  moreover have "\<forall>eff\<in>set ?new. quiet eff" using q1 by simp
  moreover have "TriggerEvents RefreshEvent u Null \<in> set ?new" by simp
  ultimately show ?thesis by blast
qed

text \<open>
  Claim C6, as stated, fails: with one validator that rejects, the trace of \<open>setData\<close>
  holds two Refresh events, one for each call of \<open>changeActive\<close>.
\<close>

theorem validator_rejection_counterexample:
  "fst (setData (sample_env\<lparr>ref_children := [rejecting_validator]\<rparr>) alice sample_data new_block)
     = Inl (BlockActionError_of (BlockActionError ''Invalid document''))
 \<and> trace (snd (setData (sample_env\<lparr>ref_children := [rejecting_validator]\<rparr>) alice sample_data new_block))
     = [RefLog ''setData'',
        UpdateBlock (Blob (Some False)) alice, TriggerEvents RefreshEvent alice Null,
        RefError ''setData: Invalid document'',
        UpdateBlock (Blob (Some True)) alice, TriggerEvents RefreshEvent alice Null]"
  by (simp add: eval_defs)

theorem validator_rejection_witness:
  "truthy_str (did alice)
 \<and> fst (setData (sample_env\<lparr>ref_children := [accepting_validator, rejecting_validator]\<rparr>)
          alice sample_data new_block)
     = Inl (BlockActionError_of (BlockActionError ''Invalid document''))
 \<and> state (snd (setData (sample_env\<lparr>ref_children := [accepting_validator, rejecting_validator]\<rparr>)
                 alice sample_data new_block)) (state_key alice) = Some (Blob (Some True))
 \<and> list_all quiet
      (trace (snd (setData (sample_env\<lparr>ref_children := [accepting_validator, rejecting_validator]\<rparr>)
                 alice sample_data new_block)))"
proof -
  let ?env = "sample_env\<lparr>ref_children := [accepting_validator, rejecting_validator]\<rparr>"
  let ?w0 = "new_block\<lparr>trace := trace new_block @ [RefLog ''setData'']\<rparr>"
  let ?w1 = "snd (getActive alice ?w0)"
  let ?item = "\<lparr> rec_policyId = ''policy-1'', rec_tag = ''request'', rec_type = None,
                  rec_document = ''vc'', rec_owner = Some ''did:alice'', rec_schema = JStr ''#schema'',
                  rec_option_type = JStr ''#schema'', rec_accounts = Some ''{}'', rec_messageId = None,
                  rec_topicId = None, rec_relationships = None, rec_ref = None \<rparr>"
  let ?w2 = "snd (setData_build ?env alice sample_data ?w1)"
  have d: "truthy_str (did alice)" by (simp add: alice_def)
  have a: "getActive alice ?w0 = (Inr True, ?w1)" by (simp add: eval_defs)
  have b: "setData_build ?env alice sample_data ?w1 = (Inr ?item, ?w2)"
    by (simp add: eval_defs)
  have r: "fst (validateDocuments ?env alice ?item ?w2) = Inr False"
    by (simp add: eval_defs)
  have u: "updateBlock ?env (Blob (Some True)) alice = Inr ()" by (simp add: sample_env_def)
  have e: "triggerEvents ?env RefreshEvent alice Null = Inr ()" by (simp add: sample_env_def)
  from validator_rejection[OF d a b r u e]
  obtain new where
    1: "setData ?env alice sample_data new_block =
           (Inl (BlockActionError_of (BlockActionError ''Invalid document'')),
            ?w2\<lparr>state := (if state ?w2 (state_key alice) = None
                           then assign_property (state ?w2) (state_key alice) (Blob (Some True))
                           else (state ?w2)(state_key alice \<mapsto> Blob (Some True))),
                 trace := trace new_block @ new\<rparr>)"
    and 2: "\<forall>eff\<in>set new. quiet eff" by blast
  have k2: "state ?w2 (state_key alice) = Some (Blob (Some False))" by (simp add: eval_defs)
  show ?thesis using d 1 2 k2 by (simp add: new_block_def list_all_iff)
qed


section \<open>Mint block: the amount check\<close>

lemmas mint_eval_defs =
  runAction_def runAction_resolve_def mintProcessing_def createMintVC_def createVP_def
  found_other_def push_truthy_def account_values_def DataTypes_MINT_def
  bind_def ret_def throw_def await_def call_def emit_def draw_def
  sample_mint_env_def sample_mint_options_def sample_token_def sample_root_def sample_topic_def
  doc_x1_def doc_x2_def doc_y_def doc_other_def mint_world0_def alice_def

lemma runAction_resolve_trace:
  assumes "runAction_resolve env event w = (r, w1)"
  shows "draws w1 = draws w \<and> (\<exists>lines. trace w1 = trace w @ map RefError lines)"
proof -
  have one: "\<exists>lines. t @ [RefError m] = t @ map RefError lines" for t m
    by (rule exI[of _ "[m]"]) simp
  have none: "\<exists>lines. t = t @ map RefError lines" for t :: "effect list"
    by (rule exI[of _ "[]"]) simp
  show ?thesis
    using assms one none
    by (auto simp: runAction_resolve_def bind_def await_def throw_def ret_def emit_def Let_def
             split: sum.splits option.splits prod.splits if_splits)
qed

text \<open>
  Claim C2. When \<open>runAction\<close> has resolved its inputs and the aggregation rule yields
  not-a-number or an infinity, \<open>mintProcessing\<close> and \<open>runAction\<close> throw the
  \<^verbatim>\<open>BlockActionError\<close> \<^verbatim>\<open>Invalid token value\<close>; all that the call has written to the trace
  are \<^verbatim>\<open>ref.error\<close> lines of the recipient resolution: no message sent to the ledger, no
  record stored, no token minted, no Run or Refresh event.
\<close>

theorem invalid_amount_aborts:
  assumes res: "runAction_resolve env event w = (Inr r, w1)"
      and root: "getHederaAccount env (mref_policyOwner env) = Inr root"
      and agg: "utils_aggregate env (mopt_rule (mref_options env)) (res_vcs r) = Inr amount"
      and bad: "isNaN amount \<or> \<not> isFinite amount"
  shows "mintProcessing env (res_token r) (res_vcs r) (res_vsMessages r) (res_topicId r) root
           (res_docOwner r) (res_targetAccountId r) w1
         = (Inl (BlockActionError (''Invalid token value: '' @ show_number amount)),
            w1\<lparr>draws := Suc (draws w1)\<rparr>)
       \<and> runAction env event w
         = (Inl (BlockActionError (''Invalid token value: '' @ show_number amount)),
            w1\<lparr>draws := Suc (draws w1)\<rparr>)
       \<and> (\<exists>lines. trace w1 = trace w @ map RefError lines)"
proof -
  have mp: "mintProcessing env (res_token r) (res_vcs r) (res_vsMessages r) (res_topicId r) root
           (res_docOwner r) (res_targetAccountId r) w1
         = (Inl (BlockActionError (''Invalid token value: '' @ show_number amount)),
            w1\<lparr>draws := Suc (draws w1)\<rparr>)"
    using agg bad by (simp add: mintProcessing_def bind_def draw_def await_def throw_def)
  have ra: "runAction env event w
         = (Inl (BlockActionError (''Invalid token value: '' @ show_number amount)),
            w1\<lparr>draws := Suc (draws w1)\<rparr>)"
    using res root mp by (simp add: runAction_def bind_def await_def)
  show ?thesis using mp ra runAction_resolve_trace[OF res] by simp
qed

theorem invalid_amount_aborts_witness:
  "runAction (sample_mint_env\<lparr>utils_aggregate := (\<lambda>rule docs. Inr NaN)\<rparr>)
     \<lparr> ev_data = ''{}'', ev_docs = [doc_x1] \<rparr> mint_world0
     = (Inl (BlockActionError ''Invalid token value: NaN''), mint_world0\<lparr>draws := 1\<rparr>)
 \<and> runAction (sample_mint_env\<lparr>utils_aggregate := (\<lambda>rule docs. Inr Infinity)\<rparr>)
     \<lparr> ev_data = ''{}'', ev_docs = [doc_x1] \<rparr> mint_world0
     = (Inl (BlockActionError ''Invalid token value: Infinity''), mint_world0\<lparr>draws := 1\<rparr>)
 \<and> trace (mint_world0\<lparr>draws := 1\<rparr>) = []"
proof -
  let ?ev = "\<lparr> ev_data = ''{}'', ev_docs = [doc_x1] \<rparr>"
  let ?r = "\<lparr> res_token = sample_token, res_vcs = [''doc-1''], res_vsMessages = [''1.001''],
             res_topicId = Some ''0.0.2000'', res_docOwner = alice,
             res_targetAccountId = Some ''0.0.7'' \<rparr>"
  have 1: "runAction (sample_mint_env\<lparr>utils_aggregate := (\<lambda>rule docs. Inr n)\<rparr>) ?ev mint_world0
     = (Inl (BlockActionError (''Invalid token value: '' @ show_number n)), mint_world0\<lparr>draws := 1\<rparr>)"
    if bad: "isNaN n \<or> \<not> isFinite n" for n
  proof -
    let ?env = "sample_mint_env\<lparr>utils_aggregate := (\<lambda>rule docs. Inr n)\<rparr>"
    have res: "runAction_resolve ?env ?ev mint_world0 = (Inr ?r, mint_world0)"
      by (simp add: mint_eval_defs)
    have root: "getHederaAccount ?env (mref_policyOwner ?env) = Inr sample_root"
      by (simp add: sample_mint_env_def)
    have agg: "utils_aggregate ?env (mopt_rule (mref_options ?env)) (res_vcs ?r) = Inr n"
      by (simp add: sample_mint_env_def)
    show ?thesis
      using invalid_amount_aborts[OF res root agg bad] by (simp add: mint_world0_def)
  qed
  show ?thesis using 1[of NaN] 1[of Infinity] by (simp add: mint_world0_def)
qed

section \<open>Mint block: the input documents\<close>

lemma collect_vsMessages:
  "collect env field docs (vcs0, ms0, ts0, as0) = Inr (vcs, ms, ts, accounts)
     \<Longrightarrow> ms = foldl push_truthy ms0 (map doc_messageId docs)"
proof (induction docs arbitrary: vcs0 ms0 ts0 as0)
  case Nil
  then show ?case by simp
next
  case (Cons doc docs)
  then show ?case
    by (auto split: if_splits sum.splits option.splits dest!: Cons.IH)
qed

lemma collect_invalid_signature:
  assumes "doc \<in> set docs" "doc_signature doc = INVALID"
      and "\<forall>d\<in>set docs. \<exists>j. fromJsonTree env (doc_document d) = Inr j"
  shows "collect env field docs (vcs, ms, ts, accs) = Inl (BlockActionError ''Invalid VC proof'')"
  using assms
proof (induction docs arbitrary: vcs ms ts accs)
  case Nil
  then show ?case by simp
next
  case (Cons d docs)
  then show ?case by (cases "doc_signature d = INVALID") auto
qed

text \<open>
  Claim C3. With an existing token and an empty array of documents \<open>runAction\<close> does not
  throw the \<^verbatim>\<open>BlockActionError\<close> \<^verbatim>\<open>Bad VC\<close>: the guard of line 206 is false, and reading
  \<^verbatim>\<open>docs[0].owner\<close> throws the runtime's \<^verbatim>\<open>TypeError\<close>. (A document with an invalid
  signature does make the loop throw \<^verbatim>\<open>Invalid VC proof\<close>: \<open>collect_invalid_signature\<close>.)
\<close>

theorem empty_documents_type_error:
  "runAction sample_mint_env \<lparr> ev_data = ''{}'', ev_docs = [] \<rparr> mint_world0
     = (Inl (TypeError ''Cannot read properties of undefined (reading owner)''), mint_world0)"
  by (simp add: mint_eval_defs)


section \<open>Mint block: the two-phase submission\<close>

text \<open>
  Claim C1, as amended. In every run of \<open>mintProcessing\<close>, either no VP message is sent
  and the run fails, or the trace of the run starts with the two log lines, the VC message
  with the relationships given, the VC record, and the VP message whose relationships are
  the relationships given followed by the message id that the ledger returned for the VC
  message, whatever that id is; nothing is sent after it. Every successful run is of the
  second kind, and returns the VP that was sent.
\<close>

theorem two_phase_submission:
  assumes run: "mintProcessing env tok documents relationships topicId root u target w = (res, w')"
  shows "\<exists>new. trace w' = trace w @ new \<and>
          ((\<forall>e\<in>set new. \<not> is_vp_send e) \<and> (\<forall>vp. res \<noteq> Inr vp)
           \<or> (\<exists>tp mintVC vcRes vcRecord l1 l2 vp rest.
                new = [RefLog l1, RefLog l2,
                       SendMessage (root_hederaAccountId root) (root_hederaAccountKey root) tp
                         (VCMessage mintVC relationships),
                       UpdateVCRecord vcRecord,
                       SendMessage (root_hederaAccountId root) (root_hederaAccountKey root) tp
                         (VPMessage vp (relationships @ [getId vcRes]))] @ rest
              \<and> mint_sendMessage env (root_hederaAccountId root) (root_hederaAccountKey root) tp
                    (VCMessage mintVC relationships) = Inr vcRes
              \<and> rec_messageId vcRecord = Some (getId vcRes)
              \<and> (\<forall>e\<in>set rest. \<not> is_send e)
              \<and> (\<forall>v. res = Inr v \<longrightarrow> v = vp)))"
  using run
  by (auto simp: mintProcessing_def createMintVC_def createVP_def bind_def draw_def await_def
                 throw_def ret_def emit_def call_def Let_def
           split: sum.splits prod.splits if_splits)


text \<open>
  Claim C1, as stated, fails: when the ledger returns the empty string as the id of the VC
  message, the run succeeds and the VP message is sent with that empty id as the last of
  its relationships.
\<close>

theorem two_phase_submission_counterexample:
  "mint_sendMessage
     (sample_mint_env\<lparr>mint_sendMessage :=
        (\<lambda>acc k tp m. Inr \<lparr> getId = [], getTopicId = Some ''0.0.2000'' \<rparr>)\<rparr>)
     (Some ''0.0.1'') ''root-key'' sample_topic (VCMessage ''mint-vc'' [''1.001''])
     = Inr \<lparr> getId = [], getTopicId = Some ''0.0.2000'' \<rparr>
 \<and> fst (mintProcessing
          (sample_mint_env\<lparr>mint_sendMessage :=
             (\<lambda>acc k tp m. Inr \<lparr> getId = [], getTopicId = Some ''0.0.2000'' \<rparr>)\<rparr>)
          sample_token [''doc-1''] [''1.001''] (Some ''0.0.2000'') sample_root alice (Some ''0.0.7'')
          mint_world0)
     = Inr ''vp''
 \<and> SendMessage (Some ''0.0.1'') ''root-key'' sample_topic (VPMessage ''vp'' [''1.001'', []])
       \<in> set (trace (snd (mintProcessing
          (sample_mint_env\<lparr>mint_sendMessage :=
             (\<lambda>acc k tp m. Inr \<lparr> getId = [], getTopicId = Some ''0.0.2000'' \<rparr>)\<rparr>)
          sample_token [''doc-1''] [''1.001''] (Some ''0.0.2000'') sample_root alice (Some ''0.0.7'')
          mint_world0)))"
  by (simp add: mint_eval_defs)

theorem two_phase_submission_witness:
  "mintProcessing sample_mint_env sample_token [''doc-1'', ''doc-2''] [''1.001'', ''1.002'']
      (Some ''0.0.2000'') sample_root alice (Some ''0.0.7'') mint_world0
    = (Inr ''vp'',
       \<lparr> trace =
           [RefLog ''Topic Id: 0.0.2000'', RefLog ''Topic Id: topic-1'',
            SendMessage (Some ''0.0.1'') ''root-key'' sample_topic
              (VCMessage ''mint-vc'' [''1.001'', ''1.002'']),
            UpdateVCRecord
              \<lparr> rec_policyId = ''policy-1'', rec_tag = ''mint'', rec_type = Some ''MINT'',
                rec_document = ''mint-vc'', rec_owner = Some ''did:alice'',
                rec_schema = JStr ''#MintToken'', rec_option_type = JUndefined,
                rec_accounts = None, rec_messageId = Some ''1.100'',
                rec_topicId = Some ''0.0.2000'', rec_relationships = Some [''1.001'', ''1.002''],
                rec_ref = None \<rparr>,
            SendMessage (Some ''0.0.1'') ''root-key'' sample_topic
              (VPMessage ''vp'' [''1.001'', ''1.002'', ''1.100'']),
            SaveVP
              \<lparr> vp_hash = ''hash'', vp_document = ''vp'', vp_owner = Some ''did:alice'',
                vp_type = ''MINT'', vp_policyId = ''policy-1'', vp_tag = ''mint'',
                vp_messageId = ''1.200'', vp_topicId = Some ''0.0.2000'' \<rparr>,
            MintToken ''0.0.3000'' (Finite 2) ''did:root'' (Some ''0.0.7'') ''1.200''],
         draws = 1 \<rparr>)
 \<and> (\<exists>tp mintVC vcRes vcRecord l1 l2 vp rest.
        [RefLog ''Topic Id: 0.0.2000'', RefLog ''Topic Id: topic-1'',
            SendMessage (Some ''0.0.1'') ''root-key'' sample_topic
              (VCMessage ''mint-vc'' [''1.001'', ''1.002'']),
            UpdateVCRecord
              \<lparr> rec_policyId = ''policy-1'', rec_tag = ''mint'', rec_type = Some ''MINT'',
                rec_document = ''mint-vc'', rec_owner = Some ''did:alice'',
                rec_schema = JStr ''#MintToken'', rec_option_type = JUndefined,
                rec_accounts = None, rec_messageId = Some ''1.100'',
                rec_topicId = Some ''0.0.2000'', rec_relationships = Some [''1.001'', ''1.002''],
                rec_ref = None \<rparr>,
            SendMessage (Some ''0.0.1'') ''root-key'' sample_topic
              (VPMessage ''vp'' [''1.001'', ''1.002'', ''1.100'']),
            SaveVP
              \<lparr> vp_hash = ''hash'', vp_document = ''vp'', vp_owner = Some ''did:alice'',
                vp_type = ''MINT'', vp_policyId = ''policy-1'', vp_tag = ''mint'',
                vp_messageId = ''1.200'', vp_topicId = Some ''0.0.2000'' \<rparr>,
            MintToken ''0.0.3000'' (Finite 2) ''did:root'' (Some ''0.0.7'') ''1.200'']
        = [RefLog l1, RefLog l2,
           SendMessage (Some ''0.0.1'') ''root-key'' tp (VCMessage mintVC [''1.001'', ''1.002'']),
           UpdateVCRecord vcRecord,
           SendMessage (Some ''0.0.1'') ''root-key'' tp
             (VPMessage vp ([''1.001'', ''1.002''] @ [getId vcRes]))] @ rest
      \<and> mint_sendMessage sample_mint_env (Some ''0.0.1'') ''root-key'' tp
            (VCMessage mintVC [''1.001'', ''1.002'']) = Inr vcRes
      \<and> getId vcRes \<noteq> [] \<and> vp = ''vp'')"
proof -
  let ?w' = "snd (mintProcessing sample_mint_env sample_token [''doc-1'', ''doc-2''] [''1.001'', ''1.002'']
      (Some ''0.0.2000'') sample_root alice (Some ''0.0.7'') mint_world0)"
  have run: "mintProcessing sample_mint_env sample_token [''doc-1'', ''doc-2''] [''1.001'', ''1.002'']
      (Some ''0.0.2000'') sample_root alice (Some ''0.0.7'') mint_world0
    = (Inr ''vp'',
       \<lparr> trace =
           [RefLog ''Topic Id: 0.0.2000'', RefLog ''Topic Id: topic-1'',
            SendMessage (Some ''0.0.1'') ''root-key'' sample_topic
              (VCMessage ''mint-vc'' [''1.001'', ''1.002'']),
            UpdateVCRecord
              \<lparr> rec_policyId = ''policy-1'', rec_tag = ''mint'', rec_type = Some ''MINT'',
                rec_document = ''mint-vc'', rec_owner = Some ''did:alice'',
                rec_schema = JStr ''#MintToken'', rec_option_type = JUndefined,
                rec_accounts = None, rec_messageId = Some ''1.100'',
                rec_topicId = Some ''0.0.2000'', rec_relationships = Some [''1.001'', ''1.002''],
                rec_ref = None \<rparr>,
            SendMessage (Some ''0.0.1'') ''root-key'' sample_topic
              (VPMessage ''vp'' [''1.001'', ''1.002'', ''1.100'']),
            SaveVP
              \<lparr> vp_hash = ''hash'', vp_document = ''vp'', vp_owner = Some ''did:alice'',
                vp_type = ''MINT'', vp_policyId = ''policy-1'', vp_tag = ''mint'',
                vp_messageId = ''1.200'', vp_topicId = Some ''0.0.2000'' \<rparr>,
            MintToken ''0.0.3000'' (Finite 2) ''did:root'' (Some ''0.0.7'') ''1.200''],
         draws = 1 \<rparr>)"
    by (simp add: mint_eval_defs)
  have sent: "mint_sendMessage sample_mint_env (Some ''0.0.1'') ''root-key'' sample_topic
                 (VCMessage ''mint-vc'' [''1.001'', ''1.002''])
               = Inr \<lparr> getId = ''1.100'', getTopicId = Some ''0.0.2000'' \<rparr>"
    by (simp add: sample_mint_env_def)
  have third: "\<exists>tp mintVC vcRes vcRecord l1 l2 vp rest.
        [RefLog ''Topic Id: 0.0.2000'', RefLog ''Topic Id: topic-1'',
            SendMessage (Some ''0.0.1'') ''root-key'' sample_topic
              (VCMessage ''mint-vc'' [''1.001'', ''1.002'']),
            UpdateVCRecord
              \<lparr> rec_policyId = ''policy-1'', rec_tag = ''mint'', rec_type = Some ''MINT'',
                rec_document = ''mint-vc'', rec_owner = Some ''did:alice'',
                rec_schema = JStr ''#MintToken'', rec_option_type = JUndefined,
                rec_accounts = None, rec_messageId = Some ''1.100'',
                rec_topicId = Some ''0.0.2000'', rec_relationships = Some [''1.001'', ''1.002''],
                rec_ref = None \<rparr>,
            SendMessage (Some ''0.0.1'') ''root-key'' sample_topic
              (VPMessage ''vp'' [''1.001'', ''1.002'', ''1.100'']),
            SaveVP
              \<lparr> vp_hash = ''hash'', vp_document = ''vp'', vp_owner = Some ''did:alice'',
                vp_type = ''MINT'', vp_policyId = ''policy-1'', vp_tag = ''mint'',
                vp_messageId = ''1.200'', vp_topicId = Some ''0.0.2000'' \<rparr>,
            MintToken ''0.0.3000'' (Finite 2) ''did:root'' (Some ''0.0.7'') ''1.200'']
        = [RefLog l1, RefLog l2,
           SendMessage (Some ''0.0.1'') ''root-key'' tp (VCMessage mintVC [''1.001'', ''1.002'']),
           UpdateVCRecord vcRecord,
           SendMessage (Some ''0.0.1'') ''root-key'' tp
             (VPMessage vp ([''1.001'', ''1.002''] @ [getId vcRes]))] @ rest
      \<and> mint_sendMessage sample_mint_env (Some ''0.0.1'') ''root-key'' tp
            (VCMessage mintVC [''1.001'', ''1.002'']) = Inr vcRes
      \<and> getId vcRes \<noteq> [] \<and> vp = ''vp''"
    using two_phase_submission[OF run] sent
    by (auto simp: mint_world0_def sample_root_def)
  show ?thesis
    using run third by blast
qed

section \<open>Mint block: the recipient\<close>

lemma collect_accounts:
  "collect env field docs (vcs0, ms0, ts0, as0) = Inr (vcs, ms, ts, accounts)
     \<Longrightarrow> accounts = as0 @ account_values field docs"
proof (induction docs arbitrary: vcs0 ms0 ts0 as0)
  case Nil
  then show ?case by (simp add: account_values_def)
next
  case (Cons doc docs)
  then show ?case
    by (auto simp: account_values_def split: if_splits sum.splits option.splits dest!: Cons.IH)
qed

lemma found_other_truthy:
  assumes "\<forall>a\<in>set accounts. truthy_str a"
  shows "found_other accounts fa \<longleftrightarrow> (\<exists>b\<in>set accounts. b \<noteq> fa)"
proof (cases "find (\<lambda>a. a \<noteq> fa) accounts")
  case None
  have "\<not> found_other accounts fa" using None by (simp add: found_other_def)
  moreover have "\<forall>b\<in>set accounts. b = fa" using None by (auto simp: find_None_iff)
  ultimately show ?thesis by blast
next
  case (Some b)
  then have "b \<in> set accounts" "b \<noteq> fa" by (auto simp: find_Some_iff)
  then show ?thesis using Some assms by (auto simp: found_other_def)
qed

text \<open>
  Claim C7, as amended. When the token and the owner of the first document are found and
  the loop over the documents succeeds, the collected account values are those of the
  documents that have an accounts object, in order. The recipient is the first collected
  value when an account field is configured (whether or not that value is empty), and
  the owner's ledger account otherwise; \<open>runAction\<close> goes on with that recipient when
  it is a non-empty string and throws \<^verbatim>\<open>Token recipient not set\<close> when it is not. One
  \<^verbatim>\<open>ref.error\<close> line is written, and the action does not fail for it, when the first
  collected value that differs from the first one is non-empty: when all collected values
  are non-empty, that is when they are not all equal.
\<close>

theorem recipient_resolution:
  assumes tok: "findOneToken env (mopt_tokenId (mref_options env)) = Inr (Some tok)"
      and docs: "ev_docs event = doc0 # docs"
      and owner: "getUserById env (doc_owner doc0) = Inr (Some docOwner)"
      and field: "field = (if truthy_str (mopt_accountId (mref_options env))
                           then show_str (mopt_accountId (mref_options env)) else ''default'')"
      and coll: "collect env field (doc0 # docs) ([], [], [], []) = Inr (vcs, vsMessages, topicIds, accounts)"
      and fa: "firstAccounts = (case first accounts of None \<Rightarrow> None | Some a \<Rightarrow> a)"
      and tg: "targetAccountId = (if truthy_str (mopt_accountId (mref_options env))
                                  then firstAccounts else hederaAccountId docOwner)"
  shows "accounts = account_values field (doc0 # docs)
       \<and> runAction_resolve env event w =
           (if truthy_str targetAccountId
            then Inr \<lparr> res_token = tok, res_vcs = vcs, res_vsMessages = vsMessages,
                       res_topicId = first topicIds, res_docOwner = docOwner,
                       res_targetAccountId = targetAccountId \<rparr>
            else Inl (BlockActionError ''Token recipient not set''),
            w\<lparr>trace := trace w @
                 (if found_other accounts firstAccounts
                  then [RefError (''More than one account found! Transfer made on the first (''
                                    @ show_str firstAccounts @ '')'')]
                  else [])\<rparr>)
       \<and> ((\<forall>a\<in>set accounts. truthy_str a) \<longrightarrow>
            (found_other accounts firstAccounts \<longleftrightarrow> (\<exists>b\<in>set accounts. b \<noteq> firstAccounts)))"
proof -
  have a: "accounts = account_values field (doc0 # docs)"
    using collect_accounts[OF coll] by simp
  have r: "runAction_resolve env event w =
           (if truthy_str targetAccountId
            then Inr \<lparr> res_token = tok, res_vcs = vcs, res_vsMessages = vsMessages,
                       res_topicId = first topicIds, res_docOwner = docOwner,
                       res_targetAccountId = targetAccountId \<rparr>
            else Inl (BlockActionError ''Token recipient not set''),
            w\<lparr>trace := trace w @
                 (if found_other accounts firstAccounts
                  then [RefError (''More than one account found! Transfer made on the first (''
                                    @ show_str firstAccounts @ '')'')]
                  else [])\<rparr>)"
    using tok docs owner coll[unfolded field] fa tg
    by (simp add: runAction_resolve_def bind_def await_def throw_def ret_def emit_def Let_def
             del: collect.simps)
  show ?thesis using a r found_other_truthy by blast
qed

text \<open>
  Claim C7, as stated, fails: the first document has an accounts object without the
  configured field and the second names \<^verbatim>\<open>0.0.7\<close>; the first non-empty account value is
  \<^verbatim>\<open>0.0.7\<close>, and \<open>runAction\<close> throws \<^verbatim>\<open>Token recipient not set\<close>.
\<close>

theorem recipient_resolution_counterexample:
  "account_values ''recipient'' [doc_other, doc_x1] = [None, Some ''0.0.7'']
 \<and> runAction_resolve sample_mint_env \<lparr> ev_data = ''{}'', ev_docs = [doc_other, doc_x1] \<rparr> mint_world0
     = (Inl (BlockActionError ''Token recipient not set''),
        mint_world0\<lparr>trace :=
           [RefError ''More than one account found! Transfer made on the first (undefined)'']\<rparr>)"
  by (simp add: mint_eval_defs)


theorem recipient_resolution_witness:
  "account_values ''recipient'' [doc_x1, doc_x2, doc_y] = [Some ''0.0.7'', Some ''0.0.7'', Some ''0.0.8'']
 \<and> runAction_resolve sample_mint_env \<lparr> ev_data = ''{}'', ev_docs = [doc_x1, doc_x2, doc_y] \<rparr> mint_world0
     = (Inr \<lparr> res_token = sample_token, res_vcs = [''doc-1'', ''doc-2'', ''doc-3''],
              res_vsMessages = [''1.001'', ''1.002''], res_topicId = Some ''0.0.2000'',
              res_docOwner = alice, res_targetAccountId = Some ''0.0.7'' \<rparr>,
        mint_world0\<lparr>trace :=
           [RefError ''More than one account found! Transfer made on the first (0.0.7)'']\<rparr>)
 \<and> found_other [Some ''0.0.7'', Some ''0.0.7'', Some ''0.0.8''] (Some ''0.0.7'')
 \<and> runAction_resolve (sample_mint_env\<lparr>mref_options := sample_mint_options\<lparr>mopt_accountId := None\<rparr>\<rparr>)
       \<lparr> ev_data = ''{}'', ev_docs = [doc_x1, doc_x2, doc_y] \<rparr> mint_world0
     = (Inr \<lparr> res_token = sample_token, res_vcs = [''doc-1'', ''doc-2'', ''doc-3''],
              res_vsMessages = [''1.001'', ''1.002''], res_topicId = Some ''0.0.2000'',
              res_docOwner = alice, res_targetAccountId = Some ''0.0.1001'' \<rparr>,
        mint_world0)"
proof -
  let ?ev = "\<lparr> ev_data = ''{}'', ev_docs = [doc_x1, doc_x2, doc_y] \<rparr>"
  let ?env2 = "sample_mint_env\<lparr>mref_options := sample_mint_options\<lparr>mopt_accountId := None\<rparr>\<rparr>"
  let ?accs = "[Some ''0.0.7'', Some ''0.0.7'', Some ''0.0.8'']"
  have tok: "findOneToken sample_mint_env (mopt_tokenId (mref_options sample_mint_env)) = Inr (Some sample_token)"
    by (simp add: sample_mint_env_def sample_mint_options_def)
  have docs: "ev_docs ?ev = doc_x1 # [doc_x2, doc_y]" by simp
  have owner: "getUserById sample_mint_env (doc_owner doc_x1) = Inr (Some alice)"
    by (simp add: sample_mint_env_def doc_x1_def)
  have field: "''recipient'' = (if truthy_str (mopt_accountId (mref_options sample_mint_env))
                           then show_str (mopt_accountId (mref_options sample_mint_env)) else ''default'')"
    by (simp add: sample_mint_env_def sample_mint_options_def)
  have coll: "collect sample_mint_env ''recipient'' (doc_x1 # [doc_x2, doc_y]) ([], [], [], [])
                = Inr ([''doc-1'', ''doc-2'', ''doc-3''], [''1.001'', ''1.002''], [''0.0.2000''], ?accs)"
    by (simp add: mint_eval_defs)
  have fa: "Some ''0.0.7'' = (case first ?accs of None \<Rightarrow> None | Some a \<Rightarrow> a)" by simp
  have tg: "Some ''0.0.7'' = (if truthy_str (mopt_accountId (mref_options sample_mint_env))
                                  then Some ''0.0.7'' else hederaAccountId alice)"
    by (simp add: sample_mint_env_def sample_mint_options_def)
  have tok2: "findOneToken ?env2 (mopt_tokenId (mref_options ?env2)) = Inr (Some sample_token)"
    by (simp add: sample_mint_env_def sample_mint_options_def)
  have owner2: "getUserById ?env2 (doc_owner doc_x1) = Inr (Some alice)"
    by (simp add: sample_mint_env_def doc_x1_def)
  have field2: "''default'' = (if truthy_str (mopt_accountId (mref_options ?env2))
                           then show_str (mopt_accountId (mref_options ?env2)) else ''default'')"
    by (simp add: sample_mint_env_def sample_mint_options_def)
  have coll2: "collect ?env2 ''default'' (doc_x1 # [doc_x2, doc_y]) ([], [], [], [])
                = Inr ([''doc-1'', ''doc-2'', ''doc-3''], [''1.001'', ''1.002''], [''0.0.2000''],
                       [None, None, None])"
    by (simp add: mint_eval_defs)
  have fa2: "None = (case first [None, None, None :: string option] of None \<Rightarrow> None | Some a \<Rightarrow> a)"
    by simp
  have tg2: "Some ''0.0.1001'' = (if truthy_str (mopt_accountId (mref_options ?env2))
                                  then None else hederaAccountId alice)"
    by (simp add: sample_mint_env_def sample_mint_options_def alice_def)
  note r1 = recipient_resolution[OF tok docs owner field coll fa tg, of mint_world0]
  note r2 = recipient_resolution[OF tok2 docs owner2 field2 coll2 fa2 tg2, of mint_world0]
  have a1: "account_values ''recipient'' [doc_x1, doc_x2, doc_y] = ?accs"
    using r1[THEN conjunct1] by simp
  have b1: "runAction_resolve sample_mint_env ?ev mint_world0
     = (Inr \<lparr> res_token = sample_token, res_vcs = [''doc-1'', ''doc-2'', ''doc-3''],
              res_vsMessages = [''1.001'', ''1.002''], res_topicId = Some ''0.0.2000'',
              res_docOwner = alice, res_targetAccountId = Some ''0.0.7'' \<rparr>,
        mint_world0\<lparr>trace :=
           [RefError ''More than one account found! Transfer made on the first (0.0.7)'']\<rparr>)"
    using r1[THEN conjunct2, THEN conjunct1] by (simp add: found_other_def mint_world0_def)
  have c1: "found_other ?accs (Some ''0.0.7'')"
    using r1[THEN conjunct2, THEN conjunct2] by simp
  have b2: "runAction_resolve ?env2 ?ev mint_world0
     = (Inr \<lparr> res_token = sample_token, res_vcs = [''doc-1'', ''doc-2'', ''doc-3''],
              res_vsMessages = [''1.001'', ''1.002''], res_topicId = Some ''0.0.2000'',
              res_docOwner = alice, res_targetAccountId = Some ''0.0.1001'' \<rparr>,
        mint_world0)"
    using r2[THEN conjunct2, THEN conjunct1] by (simp add: found_other_def mint_world0_def)
  show ?thesis using a1 b1 c1 b2 by simp
qed

end
